theory Spec2Isabelle
  imports Main "HOL-Library.Word"
begin

unbundle bit_operations_syntax

section \<open>The host value world\<close>

text \<open>
  The interpreter of \<^verbatim>\<open>reval.cc\<close> runs on top of the CPython 2 object world.  A
  \<^verbatim>\<open>PyObject*\<close> is an optional address (\<open>None\<close> is \<^verbatim>\<open>NULL\<close>); every object has a
  reference count \<^verbatim>\<open>ob_refcnt\<close> and a payload.  A native \<^verbatim>\<open>long\<close> has 64 bits (LP64).
\<close>

type_synonym addr = nat
type_synonym ptr = "addr option"
type_synonym long = "64 word"

datatype exc_kind =
    PyExc_TypeError | PyExc_SystemError | PyExc_NameError
  | PyExc_IndexError | PyExc_ZeroDivisionError | PyExc_StopIteration

datatype pyval =
    PyInt long
  | PyList "ptr list"
  | PyTuple "ptr list"
  | PyDict "(addr \<times> addr) list"
  | PyFunction ptr
  | PyMethod ptr ptr
  | PyCFunction nat
  | PyOther nat

record world =
  ob_refcnt :: "addr \<Rightarrow> int"
  ob_val :: "addr \<Rightarrow> pyval"
  deallocated :: "addr list"
  err_occurred :: "exc_kind option"
  next_free :: addr

text \<open>The singleton \<^verbatim>\<open>Py_None\<close>, \<^verbatim>\<open>Py_False\<close> and \<^verbatim>\<open>Py_True\<close> objects live at fixed addresses.\<close>

definition Py_None :: addr where "Py_None = 0"
definition Py_False :: addr where "Py_False = 1"
definition Py_True :: addr where "Py_True = 2"

subsection \<open>Reference counting\<close>

text \<open>
  \<^verbatim>\<open>Py_INCREF(op)\<close> is \<^verbatim>\<open>op->ob_refcnt++\<close>; \<^verbatim>\<open>Py_DECREF(op)\<close> is
  \<^verbatim>\<open>if (--op->ob_refcnt == 0) _Py_Dealloc(op)\<close>.  The deallocation itself belongs to the
  host: the model records it in the log \<open>deallocated\<close> and does nothing else.
\<close>

definition Py_INCREF :: "addr \<Rightarrow> world \<Rightarrow> world" where
  "Py_INCREF a w = w\<lparr>ob_refcnt := (ob_refcnt w)(a := ob_refcnt w a + 1)\<rparr>"

definition Py_DECREF :: "addr \<Rightarrow> world \<Rightarrow> world" where
  "Py_DECREF a w =
     (if ob_refcnt w a - 1 = 0
      then w\<lparr>ob_refcnt := (ob_refcnt w)(a := 0), deallocated := deallocated w @ [a]\<rparr>
      else w\<lparr>ob_refcnt := (ob_refcnt w)(a := ob_refcnt w a - 1)\<rparr>)"

definition Py_XINCREF :: "ptr \<Rightarrow> world \<Rightarrow> world" where
  "Py_XINCREF p w = (case p of None \<Rightarrow> w | Some a \<Rightarrow> Py_INCREF a w)"

definition Py_XDECREF :: "ptr \<Rightarrow> world \<Rightarrow> world" where
  "Py_XDECREF p w = (case p of None \<Rightarrow> w | Some a \<Rightarrow> Py_DECREF a w)"

subsection \<open>Object constructors and accessors of the host used by the engine\<close>

text \<open>
  Allocation takes the next free address and hands out one reference.  Allocation failure
  and the small-integer cache of \<^verbatim>\<open>PyInt_FromLong\<close> are not modelled.
\<close>

definition alloc :: "pyval \<Rightarrow> world \<Rightarrow> addr \<times> world" where
  "alloc v w =
     (next_free w,
      w\<lparr>ob_refcnt := (ob_refcnt w)(next_free w := 1),
        ob_val := (ob_val w)(next_free w := v),
        next_free := Suc (next_free w)\<rparr>)"

definition PyInt_FromLong :: "long \<Rightarrow> world \<Rightarrow> addr \<times> world" where
  "PyInt_FromLong i w = alloc (PyInt i) w"

definition PyTuple_New :: "nat \<Rightarrow> world \<Rightarrow> addr \<times> world" where
  "PyTuple_New n w = alloc (PyTuple (replicate n None)) w"

definition PyList_New :: "nat \<Rightarrow> world \<Rightarrow> addr \<times> world" where
  "PyList_New n w = alloc (PyList (replicate n None)) w"

definition PyDict_New :: "world \<Rightarrow> addr \<times> world" where
  "PyDict_New w = alloc (PyDict []) w"

text \<open>\<^verbatim>\<open>PyTuple_SET_ITEM\<close> and \<^verbatim>\<open>PyList_SET_ITEM\<close> store the pointer and touch no count.\<close>

definition PyTuple_SET_ITEM :: "addr \<Rightarrow> nat \<Rightarrow> ptr \<Rightarrow> world \<Rightarrow> world" where
  "PyTuple_SET_ITEM t i v w =
     (case ob_val w t of
        PyTuple items \<Rightarrow> w\<lparr>ob_val := (ob_val w)(t := PyTuple (items[i := v]))\<rparr>
      | _ \<Rightarrow> w)"

definition PyList_SET_ITEM :: "addr \<Rightarrow> nat \<Rightarrow> ptr \<Rightarrow> world \<Rightarrow> world" where
  "PyList_SET_ITEM t i v w =
     (case ob_val w t of
        PyList items \<Rightarrow> w\<lparr>ob_val := (ob_val w)(t := PyList (items[i := v]))\<rparr>
      | _ \<Rightarrow> w)"

text \<open>
  \<^verbatim>\<open>PyDict_SetItem\<close> retains the key and the value it stores and releases a value it
  replaces.  Keys are compared by identity here (names are interned strings).
\<close>

definition PyDict_SetItem :: "addr \<Rightarrow> addr \<Rightarrow> addr \<Rightarrow> world \<Rightarrow> world" where
  "PyDict_SetItem d k v w =
     (case ob_val w d of
        PyDict kvs \<Rightarrow>
          (case map_of kvs k of
             None \<Rightarrow>
               Py_INCREF v (Py_INCREF k (w\<lparr>ob_val := (ob_val w)(d := PyDict (kvs @ [(k, v)]))\<rparr>))
           | Some old \<Rightarrow>
               Py_DECREF old (Py_INCREF v
                 (w\<lparr>ob_val := (ob_val w)(d := PyDict (map (\<lambda>(k', v'). if k' = k then (k', v) else (k', v')) kvs))\<rparr>)))
      | _ \<Rightarrow> w)"

definition tuple_items :: "world \<Rightarrow> ptr \<Rightarrow> ptr list" where
  "tuple_items w p =
     (case p of None \<Rightarrow> []
      | Some a \<Rightarrow> (case ob_val w a of PyTuple items \<Rightarrow> items | _ \<Rightarrow> []))"


definition PyInt_CheckExact :: "world \<Rightarrow> addr \<Rightarrow> bool" where
  "PyInt_CheckExact h a = (case ob_val h a of PyInt i \<Rightarrow> True | _ \<Rightarrow> False)"

definition PyInt_AS_LONG :: "world \<Rightarrow> addr \<Rightarrow> long" where
  "PyInt_AS_LONG h a = (case ob_val h a of PyInt i \<Rightarrow> i | _ \<Rightarrow> 0)"

definition PyList_CheckExact :: "world \<Rightarrow> addr \<Rightarrow> bool" where
  "PyList_CheckExact h a = (case ob_val h a of PyList xs \<Rightarrow> True | _ \<Rightarrow> False)"

definition list_items :: "world \<Rightarrow> addr \<Rightarrow> ptr list" where
  "list_items h a = (case ob_val h a of PyList xs \<Rightarrow> xs | _ \<Rightarrow> [])"

definition PyTuple_Check :: "world \<Rightarrow> addr \<Rightarrow> bool" where
  "PyTuple_Check h a = (case ob_val h a of PyTuple xs \<Rightarrow> True | _ \<Rightarrow> False)"

definition PyCFunction_Check :: "world \<Rightarrow> addr \<Rightarrow> bool" where
  "PyCFunction_Check h a = (case ob_val h a of PyCFunction n \<Rightarrow> True | _ \<Rightarrow> False)"

definition PyMethod_Check :: "world \<Rightarrow> addr \<Rightarrow> bool" where
  "PyMethod_Check h a = (case ob_val h a of PyMethod self f \<Rightarrow> True | _ \<Rightarrow> False)"

definition PyMethod_Self :: "world \<Rightarrow> addr \<Rightarrow> ptr" where
  "PyMethod_Self h a = (case ob_val h a of PyMethod self f \<Rightarrow> self | _ \<Rightarrow> None)"

definition PyFunction_GetDefaults :: "world \<Rightarrow> ptr \<Rightarrow> ptr" where
  "PyFunction_GetDefaults h p =
     (case p of None \<Rightarrow> None
      | Some a \<Rightarrow> (case ob_val h a of PyFunction d \<Rightarrow> d | _ \<Rightarrow> None))"

section \<open>Results of engine code\<close>

text \<open>
  Engine code either finishes, leaves by a C++ \<^verbatim>\<open>throw\<close> (of a \<^verbatim>\<open>PyObject*\<close> in
  \<^verbatim>\<open>RETURN_VALUE\<close>, of an \<^verbatim>\<open>RException\<close> for an error), or has undefined behaviour in C++
  (a \<^verbatim>\<open>NULL\<close> dereference, an index outside an array, a division trap, a failed
  \<^verbatim>\<open>Reg_Assert\<close>), which the model makes a value of its own.  \<open>OutOfFuel\<close> is the
  result of a dispatch loop that was still running when its fuel ended.
\<close>

datatype fault = NullDeref | OutOfBounds | DivideError | BadInstruction | AssertFailed

text \<open>
  \<^verbatim>\<open>RException(kind, fmt, ...)\<close> carries a new error; the default \<^verbatim>\<open>RException()\<close>
  stands for the error the host call has already raised.
\<close>

datatype rexception = RException_new exc_kind string | RException_pending

datatype ('a, 's) res =
    Done 'a
  | Throw_PyObject ptr 's
  | Throw_RException rexception 's
  | Crash fault
  | NotModelled
  | OutOfFuel

section \<open>Integer fast path: \<^verbatim>\<open>IntegerOps\<close>\<close>

text \<open>
  \<^verbatim>\<open>i = (long) ((unsigned long) a op b)\<close>: the cast binds to \<^verbatim>\<open>a\<close>, so \<^verbatim>\<open>b\<close> is
  converted too and the operator is the one of \<^verbatim>\<open>unsigned long\<close>.  Unsigned division and
  remainder by zero trap.
\<close>

definition c_add :: "long \<Rightarrow> long \<Rightarrow> fault + long" where
  "c_add a b = Inr (a + b)"

definition c_sub :: "long \<Rightarrow> long \<Rightarrow> fault + long" where
  "c_sub a b = Inr (a - b)"

definition c_mul :: "long \<Rightarrow> long \<Rightarrow> fault + long" where
  "c_mul a b = Inr (a * b)"

definition c_div :: "long \<Rightarrow> long \<Rightarrow> fault + long" where
  "c_div a b = (if b = 0 then Inl DivideError else Inr (a div b))"

definition c_mod :: "long \<Rightarrow> long \<Rightarrow> fault + long" where
  "c_mod a b = (if b = 0 then Inl DivideError else Inr (a mod b))"

text \<open>The body of the macro \<^verbatim>\<open>_OP(name, op)\<close> on the two native values.\<close>

definition integer_op :: "(long \<Rightarrow> long \<Rightarrow> fault + long) \<Rightarrow> long \<Rightarrow> long \<Rightarrow> fault + long option" where
  "integer_op cop a b =
     (case cop a b of
        Inl f \<Rightarrow> Inl f
      | Inr i \<Rightarrow> if sint (i XOR a) < 0 \<and> sint (i XOR b) < 0 then Inr None else Inr (Some i))"

definition IntegerOps_OP ::
  "(long \<Rightarrow> long \<Rightarrow> fault + long) \<Rightarrow> ptr \<Rightarrow> ptr \<Rightarrow> world \<Rightarrow> fault + ptr \<times> world" where
  "IntegerOps_OP cop w v h =
     (case v of
        None \<Rightarrow> Inl NullDeref
      | Some va \<Rightarrow>
          if \<not> PyInt_CheckExact h va then Inr (None, h)
          else (case w of
                  None \<Rightarrow> Inl NullDeref
                | Some wa \<Rightarrow>
                    if \<not> PyInt_CheckExact h wa then Inr (None, h)
                    else (case integer_op cop (PyInt_AS_LONG h wa) (PyInt_AS_LONG h va) of
                            Inl f \<Rightarrow> Inl f
                          | Inr None \<Rightarrow> Inr (None, h)
                          | Inr (Some i) \<Rightarrow>
                              (case PyInt_FromLong i h of (r, h') \<Rightarrow> Inr (Some r, h')))))"

definition IntegerOps_add :: "ptr \<Rightarrow> ptr \<Rightarrow> world \<Rightarrow> fault + ptr \<times> world" where
  "IntegerOps_add = IntegerOps_OP c_add"

definition IntegerOps_sub :: "ptr \<Rightarrow> ptr \<Rightarrow> world \<Rightarrow> fault + ptr \<times> world" where
  "IntegerOps_sub = IntegerOps_OP c_sub"

definition IntegerOps_mul :: "ptr \<Rightarrow> ptr \<Rightarrow> world \<Rightarrow> fault + ptr \<times> world" where
  "IntegerOps_mul = IntegerOps_OP c_mul"

definition IntegerOps_div :: "ptr \<Rightarrow> ptr \<Rightarrow> world \<Rightarrow> fault + ptr \<times> world" where
  "IntegerOps_div = IntegerOps_OP c_div"

definition IntegerOps_mod :: "ptr \<Rightarrow> ptr \<Rightarrow> world \<Rightarrow> fault + ptr \<times> world" where
  "IntegerOps_mod = IntegerOps_OP c_mod"

section \<open>Instructions, code and frames\<close>

text \<open>
  The three instruction shapes.  The instruction stream is kept decoded: \<open>instructions c off\<close>
  is the instruction that starts at byte offset \<open>off\<close>.  The byte sizes of the shapes are
  declared in a header outside the sources at hand and are parameters (\<open>layout\<close>).
\<close>

datatype RegOp = RegOp (code: nat) (arg: nat) (reg_1: nat) (reg_2: nat) (reg_3: nat) (reg_4: nat)

datatype VarRegOp = VarRegOp (vcode: nat) (varg: nat) (regs: "nat list")

datatype BranchOp = BranchOp (bcode: nat) (breg_1: nat) (breg_2: nat) (label: nat)

datatype instr = I_RegOp RegOp | I_VarRegOp VarRegOp | I_BranchOp BranchOp

fun next_code :: "instr \<Rightarrow> nat" where
  "next_code (I_RegOp op) = code op"
| "next_code (I_VarRegOp op) = vcode op"
| "next_code (I_BranchOp op) = bcode op"

record layout =
  sizeof_RegOp :: nat
  sizeof_BranchOp :: nat
  size_VarRegOp :: "VarRegOp \<Rightarrow> nat"

record RegisterCode =
  instructions :: "nat \<Rightarrow> instr option"
  co_consts :: "ptr list"
  num_registers :: nat
  co_argcount :: int
  co_cellvars :: nat
  code_function :: ptr

record RegisterFrame =
  frame_code :: RegisterCode
  frame_kw :: ptr
  call_args :: ptr
  registers :: "ptr list"

subsection \<open>\<^verbatim>\<open>RegisterFrame::RegisterFrame\<close>\<close>

text \<open>The loop that binds the constants: \<^verbatim>\<open>registers[i] = consts[i]; Py_INCREF(registers[i])\<close>.\<close>

fun copy_consts :: "ptr list \<Rightarrow> nat \<Rightarrow> ptr list \<Rightarrow> world \<Rightarrow> fault + ptr list \<times> world" where
  "copy_consts [] i rs h = Inr (rs, h)"
| "copy_consts (c # cs) i rs h =
     (if i < length rs
      then (case c of
              None \<Rightarrow> Inl NullDeref
            | Some a \<Rightarrow> copy_consts cs (Suc i) (rs[i := c]) (Py_INCREF a h))
      else Inl OutOfBounds)"

text \<open>
  The loop that binds the parameters; \<open>k\<close> counts the iterations left, \<open>i\<close> is the loop
  variable and \<open>offset\<close> the register written next.
\<close>

fun fill_args ::
  "nat \<Rightarrow> nat \<Rightarrow> nat \<Rightarrow> ptr list \<Rightarrow> ptr list \<Rightarrow> ptr list \<Rightarrow> world \<Rightarrow> fault + ptr list \<times> world" where
  "fill_args 0 i offset args def_args rs h = Inr (rs, h)"
| "fill_args (Suc k) i offset args def_args rs h =
     (if \<not> offset < length rs then Inl OutOfBounds
      else if i < length args
      then fill_args k (Suc i) (Suc offset) args def_args
             (rs[offset := args ! i]) (Py_XINCREF (args ! i) h)
      else if i - length args < length def_args
      then fill_args k (Suc i) (Suc offset) args def_args
             (rs[offset := def_args ! (i - length args)])
             (Py_XINCREF (def_args ! (i - length args)) h)
      else Inl OutOfBounds)"

text \<open>The part of the constructor that installs \<^verbatim>\<open>self\<close> of a bound method.\<close>

definition bind_self ::
  "addr \<Rightarrow> nat \<Rightarrow> int \<Rightarrow> ptr list \<Rightarrow> world \<Rightarrow> fault + (nat \<times> int \<times> ptr list \<times> world)" where
  "bind_self obj offset needed_args rs h =
     (if PyMethod_Check h obj
      then (case PyMethod_Self h obj of
              None \<Rightarrow> Inl AssertFailed
            | Some self \<Rightarrow>
                if offset < length rs
                then Inr (Suc offset, needed_args - 1, rs[offset := Some self], Py_INCREF self h)
                else Inl OutOfBounds)
      else Inr (offset, needed_args, rs, h))"

definition RegisterFrame_ctor ::
  "RegisterCode \<Rightarrow> ptr \<Rightarrow> ptr \<Rightarrow> ptr \<Rightarrow> world \<Rightarrow> (RegisterFrame \<times> world, world) res" where
  "RegisterFrame_ctor func obj args kw h =
     (case copy_consts (co_consts func) 0 (replicate (num_registers func) None) h of
        Inl f \<Rightarrow> Crash f
      | Inr (rs1, h1) \<Rightarrow>
          (case obj of
             None \<Rightarrow> Crash NullDeref
           | Some o_addr \<Rightarrow>
               (case bind_self o_addr (length (co_consts func)) (co_argcount func) rs1 h1 of
                  Inl f \<Rightarrow> Crash f
                | Inr (offset, needed_args, rs2, h2) \<Rightarrow>
                    (let def_args = PyFunction_GetDefaults h2 (code_function func);
                         num_def_args = int (length (tuple_items h2 def_args));
                         num_args = int (length (tuple_items h2 args))
                     in if num_args + num_def_args < needed_args
                        then Throw_RException
                               (RException_new PyExc_TypeError ''Wrong number of arguments'') h2
                        else (case fill_args (nat needed_args) 0 offset (tuple_items h2 args)
                                     (tuple_items h2 def_args) rs2 h2 of
                                Inl f \<Rightarrow> Crash f
                              | Inr (rs3, h3) \<Rightarrow>
                                  Done (\<lparr>frame_code = func, frame_kw = kw, call_args = None,
                                          registers = rs3\<rparr>, h3))))))"

subsection \<open>\<^verbatim>\<open>RegisterFrame::~RegisterFrame\<close>\<close>

text \<open>
  \<^verbatim>\<open>delete [] registers; Py_XDECREF(call_args);\<close>  Deleting the array frees the array of
  pointers; no object a register points to is touched.
\<close>

definition RegisterFrame_dtor :: "RegisterFrame \<Rightarrow> world \<Rightarrow> world" where
  "RegisterFrame_dtor f h = Py_XDECREF (call_args f) h"


section \<open>The Value API taken from the host\<close>

text \<open>
  The generic operations are functions of the host runtime.  They are parameters of the
  model: each takes its operands and the world and returns its result (\<open>None\<close> is the
  \<^verbatim>\<open>NULL\<close> result) and the world it leaves.  The binary and unary number functions are
  named as the template arguments of the handlers name them.
\<close>

datatype binfn =
    PyNumber_Multiply | PyNumber_Divide | PyNumber_Add | PyNumber_Subtract | PyNumber_Remainder
  | PyNumber_Or | PyNumber_Xor | PyNumber_And | PyNumber_Rshift | PyNumber_Lshift
  | PyNumber_TrueDivide | PyNumber_FloorDivide
  | PyNumber_InPlaceMultiply | PyNumber_InPlaceDivide | PyNumber_InPlaceAdd
  | PyNumber_InPlaceSubtract | PyNumber_InPlaceRemainder
  | PyNumber_InPlaceOr | PyNumber_InPlaceXor | PyNumber_InPlaceAnd | PyNumber_InPlaceRshift
  | PyNumber_InPlaceLshift | PyNumber_InPlaceTrueDivide | PyNumber_InPlaceFloorDivide

datatype unfn = PyNumber_Invert | PyObject_Repr | PyNumber_Negative | PyNumber_Positive

datatype intfn = IntegerOps_add_f | IntegerOps_sub_f | IntegerOps_mul_f | IntegerOps_div_f | IntegerOps_mod_f

fun IntegerF :: "intfn \<Rightarrow> ptr \<Rightarrow> ptr \<Rightarrow> world \<Rightarrow> fault + ptr \<times> world" where
  "IntegerF IntegerOps_add_f = IntegerOps_add"
| "IntegerF IntegerOps_sub_f = IntegerOps_sub"
| "IntegerF IntegerOps_mul_f = IntegerOps_mul"
| "IntegerF IntegerOps_div_f = IntegerOps_div"
| "IntegerF IntegerOps_mod_f = IntegerOps_mod"

record host =
  BinaryFunction :: "binfn \<Rightarrow> ptr \<Rightarrow> ptr \<Rightarrow> world \<Rightarrow> ptr \<times> world"
  UnaryFunction :: "unfn \<Rightarrow> ptr \<Rightarrow> world \<Rightarrow> ptr \<times> world"
  PyNumber_Power :: "ptr \<Rightarrow> ptr \<Rightarrow> ptr \<Rightarrow> world \<Rightarrow> ptr \<times> world"
  PyObject_GetItem :: "ptr \<Rightarrow> ptr \<Rightarrow> world \<Rightarrow> ptr \<times> world"
  PyObject_GetIter :: "ptr \<Rightarrow> world \<Rightarrow> ptr \<times> world"
  PyIter_Next :: "ptr \<Rightarrow> world \<Rightarrow> ptr \<times> world"
  PyObject_IsTrue :: "ptr \<Rightarrow> world \<Rightarrow> int \<times> world"
  PyObject_Call :: "ptr \<Rightarrow> ptr \<Rightarrow> ptr \<Rightarrow> world \<Rightarrow> ptr \<times> world"
  PyCFunction_Call :: "ptr \<Rightarrow> ptr \<Rightarrow> ptr \<Rightarrow> world \<Rightarrow> ptr \<times> world"
  compile :: "ptr \<Rightarrow> world \<Rightarrow> RegisterCode option"

section \<open>The state of a running \<^verbatim>\<open>Evaluator::eval\<close>\<close>

text \<open>
  \<open>heap\<close> is the host world, \<open>total_count\<close> (the member \<^verbatim>\<open>total_count_\<close>) the counter of the \<^verbatim>\<open>Evaluator\<close>,
  \<open>frame\<close> the frame being run and \<open>pc\<close> the byte offset of the next instruction.
\<close>

record machine =
  heap :: world
  total_count :: int
  frame :: RegisterFrame
  pc :: nat

type_synonym mres = "(machine, machine) res"

definition reg :: "machine \<Rightarrow> nat \<Rightarrow> ptr" where
  "reg m r = registers (frame m) ! r"

definition valid_reg :: "machine \<Rightarrow> nat \<Rightarrow> bool" where
  "valid_reg m r = (r < length (registers (frame m)))"

definition set_reg :: "nat \<Rightarrow> ptr \<Rightarrow> machine \<Rightarrow> machine" where
  "set_reg r v m = m\<lparr>frame := (frame m)\<lparr>registers := (registers (frame m))[r := v]\<rparr>\<rparr>"

subsection \<open>\<^verbatim>\<open>Evaluator::collect_info\<close>\<close>

definition collect_info :: "nat \<Rightarrow> machine \<Rightarrow> mres" where
  "collect_info opcode m =
     (let m' = m\<lparr>total_count := total_count m + 1\<rparr>
      in if total_count m' > 1000000000
         then Throw_RException
                (RException_new PyExc_SystemError ''Execution entered infinite loop.'') m'
         else Done m')"

section \<open>Op handlers\<close>

text \<open>
  Each handler is the \<^verbatim>\<open>_eval\<close> method of the struct of the same name.  A register index
  outside the register file is undefined behaviour in C++ and \<open>Crash OutOfBounds\<close> here.
  \<^verbatim>\<open>CHECK_VALID\<close> and \<^verbatim>\<open>EVAL_LOG\<close> expand to nothing without \<^verbatim>\<open>FALCON_DEBUG\<close>.
\<close>

definition BinaryOpWithSpecialization ::
  "(ptr \<Rightarrow> ptr \<Rightarrow> world \<Rightarrow> ptr \<times> world) \<Rightarrow> (ptr \<Rightarrow> ptr \<Rightarrow> world \<Rightarrow> fault + ptr \<times> world)
     \<Rightarrow> RegOp \<Rightarrow> machine \<Rightarrow> mres" where
  "BinaryOpWithSpecialization ObjF IntF op m =
     (if \<not> (valid_reg m (reg_1 op) \<and> valid_reg m (reg_2 op) \<and> valid_reg m (reg_3 op))
      then Crash OutOfBounds
      else (case IntF (reg m (reg_1 op)) (reg m (reg_2 op)) (heap m) of
              Inl f \<Rightarrow> Crash f
            | Inr (r3, h1) \<Rightarrow>
                (case (if r3 = None then ObjF (reg m (reg_1 op)) (reg m (reg_2 op)) h1
                       else (r3, h1)) of
                   (r3', h2) \<Rightarrow>
                     Done (set_reg (reg_3 op) r3'
                             (m\<lparr>heap := Py_XDECREF (reg m (reg_3 op)) h2\<rparr>)))))"

definition BinaryOp :: "(ptr \<Rightarrow> ptr \<Rightarrow> world \<Rightarrow> ptr \<times> world) \<Rightarrow> RegOp \<Rightarrow> machine \<Rightarrow> mres" where
  "BinaryOp ObjF op m =
     (if \<not> (valid_reg m (reg_1 op) \<and> valid_reg m (reg_2 op) \<and> valid_reg m (reg_3 op))
      then Crash OutOfBounds
      else (case ObjF (reg m (reg_1 op)) (reg m (reg_2 op)) (heap m) of
              (r3, h1) \<Rightarrow>
                Done (set_reg (reg_3 op) r3 (m\<lparr>heap := Py_XDECREF (reg m (reg_3 op)) h1\<rparr>))))"

definition UnaryOp :: "(ptr \<Rightarrow> world \<Rightarrow> ptr \<times> world) \<Rightarrow> RegOp \<Rightarrow> machine \<Rightarrow> mres" where
  "UnaryOp ObjF op m =
     (if \<not> (valid_reg m (reg_1 op) \<and> valid_reg m (reg_2 op))
      then Crash OutOfBounds
      else (case ObjF (reg m (reg_1 op)) (heap m) of
              (r2, h1) \<Rightarrow>
                Done (set_reg (reg_2 op) r2 (m\<lparr>heap := Py_XDECREF (reg m (reg_2 op)) h1\<rparr>))))"

definition UnaryNot :: "(ptr \<Rightarrow> world \<Rightarrow> int \<times> world) \<Rightarrow> RegOp \<Rightarrow> machine \<Rightarrow> mres" where
  "UnaryNot IsTrue op m =
     (if \<not> (valid_reg m (reg_1 op) \<and> valid_reg m (reg_2 op))
      then Crash OutOfBounds
      else (case IsTrue (reg m (reg_1 op)) (heap m) of
              (t, h1) \<Rightarrow>
                (let res = (if t \<noteq> 0 then Py_False else Py_True)
                 in Done (set_reg (reg_2 op) (Some res)
                            (m\<lparr>heap := Py_XDECREF (reg m (reg_2 op)) (Py_INCREF res h1)\<rparr>)))))"

text \<open>
  \<^verbatim>\<open>BinaryPower\<close>: the release is \<^verbatim>\<open>Py_XDECREF(registers[op.reg_2])\<close>, the store goes to
  \<^verbatim>\<open>registers[op.reg_3]\<close>.  \<^verbatim>\<open>InplacePower\<close> has the same statements.
\<close>

definition BinaryPower ::
  "(ptr \<Rightarrow> ptr \<Rightarrow> ptr \<Rightarrow> world \<Rightarrow> ptr \<times> world) \<Rightarrow> RegOp \<Rightarrow> machine \<Rightarrow> mres" where
  "BinaryPower Power op m =
     (if \<not> (valid_reg m (reg_1 op) \<and> valid_reg m (reg_2 op) \<and> valid_reg m (reg_3 op))
      then Crash OutOfBounds
      else (case Power (reg m (reg_1 op)) (reg m (reg_2 op)) (Some Py_None) (heap m) of
              (r3, h1) \<Rightarrow>
                Done (set_reg (reg_3 op) r3 (m\<lparr>heap := Py_XDECREF (reg m (reg_2 op)) h1\<rparr>))))"

definition InplacePower ::
  "(ptr \<Rightarrow> ptr \<Rightarrow> ptr \<Rightarrow> world \<Rightarrow> ptr \<times> world) \<Rightarrow> RegOp \<Rightarrow> machine \<Rightarrow> mres" where
  "InplacePower Power op m =
     (if \<not> (valid_reg m (reg_1 op) \<and> valid_reg m (reg_2 op) \<and> valid_reg m (reg_3 op))
      then Crash OutOfBounds
      else (case Power (reg m (reg_1 op)) (reg m (reg_2 op)) (Some Py_None) (heap m) of
              (r3, h1) \<Rightarrow>
                Done (set_reg (reg_3 op) r3 (m\<lparr>heap := Py_XDECREF (reg m (reg_2 op)) h1\<rparr>))))"

text \<open>
  The direct list access of \<^verbatim>\<open>BinarySubscr\<close>: \<open>Inr (Some e)\<close> is the element found (and
  retained by the caller), \<open>Inr None\<close> leaves \<^verbatim>\<open>res\<close> at \<^verbatim>\<open>NULL\<close>.  The index is a
  \<^verbatim>\<open>Py_ssize_t\<close>; adding the size to a negative index cannot overflow.
\<close>

definition subscr_fast :: "world \<Rightarrow> ptr \<Rightarrow> ptr \<Rightarrow> fault + ptr" where
  "subscr_fast h list key =
     (case list of
        None \<Rightarrow> Inl NullDeref
      | Some l \<Rightarrow>
          if \<not> PyList_CheckExact h l then Inr None
          else (case key of
                  None \<Rightarrow> Inl NullDeref
                | Some k \<Rightarrow>
                    if \<not> PyInt_CheckExact h k then Inr None
                    else (let i0 = sint (PyInt_AS_LONG h k);
                              size = int (length (list_items h l));
                              i = (if i0 < 0 then i0 + size else i0)
                          in if i \<ge> 0 \<and> i < size
                             then (case list_items h l ! nat i of
                                     None \<Rightarrow> Inl NullDeref
                                   | Some e \<Rightarrow> Inr (Some e))
                             else Inr None)))"

definition BinarySubscr :: "(ptr \<Rightarrow> ptr \<Rightarrow> world \<Rightarrow> ptr \<times> world) \<Rightarrow> RegOp \<Rightarrow> machine \<Rightarrow> mres" where
  "BinarySubscr GetItem op m =
     (if \<not> (valid_reg m (reg_1 op) \<and> valid_reg m (reg_2 op) \<and> valid_reg m (reg_3 op))
      then Crash OutOfBounds
      else (case subscr_fast (heap m) (reg m (reg_1 op)) (reg m (reg_2 op)) of
              Inl f \<Rightarrow> Crash f
            | Inr fast \<Rightarrow>
                (case (case fast of
                         Some e \<Rightarrow> (Some e, Py_INCREF e (heap m))
                       | None \<Rightarrow> GetItem (reg m (reg_1 op)) (reg m (reg_2 op)) (heap m)) of
                   (None, h1) \<Rightarrow> Throw_RException RException_pending (m\<lparr>heap := h1\<rparr>)
                 | (Some res, h1) \<Rightarrow>
                     Done (set_reg (reg_3 op) (Some res)
                             (m\<lparr>heap := Py_XDECREF (reg m (reg_3 op)) h1\<rparr>)))))"

definition IncRef :: "RegOp \<Rightarrow> machine \<Rightarrow> mres" where
  "IncRef op m =
     (if \<not> valid_reg m (reg_1 op) then Crash OutOfBounds
      else (case reg m (reg_1 op) of
              None \<Rightarrow> Crash NullDeref
            | Some a \<Rightarrow> Done (m\<lparr>heap := Py_INCREF a (heap m)\<rparr>)))"

definition DecRef :: "RegOp \<Rightarrow> machine \<Rightarrow> mres" where
  "DecRef op m =
     (if \<not> valid_reg m (reg_1 op) then Crash OutOfBounds
      else (case reg m (reg_1 op) of
              None \<Rightarrow> Crash NullDeref
            | Some a \<Rightarrow> Done (m\<lparr>heap := Py_DECREF a (heap m)\<rparr>)))"

text \<open>
  \<^verbatim>\<open>LoadFast\<close>: \<^verbatim>\<open>Py_INCREF(registers[reg_1]); Py_XDECREF(registers[reg_2]);
  registers[reg_2] = registers[reg_1];\<close>
\<close>

definition LoadFast :: "RegOp \<Rightarrow> machine \<Rightarrow> mres" where
  "LoadFast op m =
     (if \<not> (valid_reg m (reg_1 op) \<and> valid_reg m (reg_2 op)) then Crash OutOfBounds
      else (case reg m (reg_1 op) of
              None \<Rightarrow> Crash NullDeref
            | Some a \<Rightarrow>
                Done (set_reg (reg_2 op) (Some a)
                        (m\<lparr>heap := Py_XDECREF (reg m (reg_2 op)) (Py_INCREF a (heap m))\<rparr>))))"

text \<open>
  \<^verbatim>\<open>StoreFast\<close>: \<^verbatim>\<open>Py_XDECREF(registers[reg_2]); Py_INCREF(registers[reg_1]);
  registers[reg_2] = registers[reg_1];\<close>
\<close>

definition StoreFast :: "RegOp \<Rightarrow> machine \<Rightarrow> mres" where
  "StoreFast op m =
     (if \<not> (valid_reg m (reg_1 op) \<and> valid_reg m (reg_2 op)) then Crash OutOfBounds
      else (case reg m (reg_1 op) of
              None \<Rightarrow> Crash NullDeref
            | Some a \<Rightarrow>
                Done (set_reg (reg_2 op) (Some a)
                        (m\<lparr>heap := Py_INCREF a (Py_XDECREF (reg m (reg_2 op)) (heap m))\<rparr>))))"

definition GetIter :: "(ptr \<Rightarrow> world \<Rightarrow> ptr \<times> world) \<Rightarrow> RegOp \<Rightarrow> machine \<Rightarrow> mres" where
  "GetIter GetIterF op m =
     (if \<not> (valid_reg m (reg_1 op) \<and> valid_reg m (reg_2 op)) then Crash OutOfBounds
      else (case GetIterF (reg m (reg_1 op)) (heap m) of
              (res, h1) \<Rightarrow>
                Done (set_reg (reg_2 op) res (m\<lparr>heap := Py_XDECREF (reg m (reg_2 op)) h1\<rparr>))))"

definition ForIter ::
  "layout \<Rightarrow> (ptr \<Rightarrow> world \<Rightarrow> ptr \<times> world) \<Rightarrow> BranchOp \<Rightarrow> machine \<Rightarrow> mres" where
  "ForIter L IterNext op m =
     (if \<not> valid_reg m (breg_1 op) then Crash OutOfBounds
      else (case IterNext (reg m (breg_1 op)) (heap m) of
              (Some r1, h1) \<Rightarrow>
                if \<not> valid_reg m (breg_2 op) then Crash OutOfBounds
                else Done (set_reg (breg_2 op) (Some r1)
                             (m\<lparr>heap := Py_XDECREF (reg m (breg_2 op)) h1,
                                pc := pc m + sizeof_BranchOp L\<rparr>))
            | (None, h1) \<Rightarrow> Done (m\<lparr>heap := h1, pc := label op\<rparr>)))"

definition JumpIfFalseOrPop ::
  "layout \<Rightarrow> (ptr \<Rightarrow> world \<Rightarrow> int \<times> world) \<Rightarrow> BranchOp \<Rightarrow> machine \<Rightarrow> mres" where
  "JumpIfFalseOrPop L IsTrue op m =
     (if \<not> valid_reg m (breg_1 op) then Crash OutOfBounds
      else if reg m (breg_1 op) = Some Py_False then Done (m\<lparr>pc := label op\<rparr>)
      else (case IsTrue (reg m (breg_1 op)) (heap m) of
              (t, h1) \<Rightarrow>
                if t = 0 then Done (m\<lparr>heap := h1, pc := label op\<rparr>)
                else Done (m\<lparr>heap := h1, pc := pc m + sizeof_BranchOp L\<rparr>)))"

definition JumpIfTrueOrPop ::
  "layout \<Rightarrow> (ptr \<Rightarrow> world \<Rightarrow> int \<times> world) \<Rightarrow> BranchOp \<Rightarrow> machine \<Rightarrow> mres" where
  "JumpIfTrueOrPop L IsTrue op m =
     (if \<not> valid_reg m (breg_1 op) then Crash OutOfBounds
      else if reg m (breg_1 op) = Some Py_True then Done (m\<lparr>pc := label op\<rparr>)
      else (case IsTrue (reg m (breg_1 op)) (heap m) of
              (t, h1) \<Rightarrow>
                if t = 1 then Done (m\<lparr>heap := h1, pc := label op\<rparr>)
                else Done (m\<lparr>heap := h1, pc := pc m + sizeof_BranchOp L\<rparr>)))"

definition JumpAbsolute :: "BranchOp \<Rightarrow> machine \<Rightarrow> mres" where
  "JumpAbsolute op m = Done (m\<lparr>pc := label op\<rparr>)"

definition ReturnValue :: "RegOp \<Rightarrow> machine \<Rightarrow> mres" where
  "ReturnValue op m =
     (if \<not> valid_reg m (reg_1 op) then Crash OutOfBounds
      else (case reg m (reg_1 op) of
              None \<Rightarrow> Crash NullDeref
            | Some result \<Rightarrow> Throw_PyObject (Some result) (m\<lparr>heap := Py_INCREF result (heap m)\<rparr>)))"


subsection \<open>Container builds\<close>

text \<open>
  The loop \<^verbatim>\<open>for (i = 0; i < n; ++i) SET_ITEM(t, i, registers[op->regs[i]])\<close> over the
  first \<open>n\<close> operand registers, shared by \<^verbatim>\<open>BuildTuple\<close>, \<^verbatim>\<open>BuildList\<close> and the positional
  arguments of \<^verbatim>\<open>CallFunction\<close>.
\<close>

fun set_items ::
  "(addr \<Rightarrow> nat \<Rightarrow> ptr \<Rightarrow> world \<Rightarrow> world) \<Rightarrow> addr \<Rightarrow> nat list \<Rightarrow> nat \<Rightarrow> ptr list \<Rightarrow> world
     \<Rightarrow> fault + world" where
  "set_items SET t [] i rs h = Inr h"
| "set_items SET t (r # rest) i rs h =
     (if r < length rs then set_items SET t rest (Suc i) rs (SET t i (rs ! r) h)
      else Inl OutOfBounds)"

definition BuildTuple :: "VarRegOp \<Rightarrow> machine \<Rightarrow> mres" where
  "BuildTuple op m =
     (if \<not> varg op < length (regs op) then Crash OutOfBounds
      else if \<not> valid_reg m (regs op ! varg op) then Crash OutOfBounds
      else (case PyTuple_New (varg op) (heap m) of
              (t, h1) \<Rightarrow>
                (case set_items PyTuple_SET_ITEM t (take (varg op) (regs op)) 0
                        (registers (frame m)) h1 of
                   Inl f \<Rightarrow> Crash f
                 | Inr h2 \<Rightarrow> Done (set_reg (regs op ! varg op) (Some t) (m\<lparr>heap := h2\<rparr>)))))"

definition BuildList :: "VarRegOp \<Rightarrow> machine \<Rightarrow> mres" where
  "BuildList op m =
     (if \<not> varg op < length (regs op) then Crash OutOfBounds
      else if \<not> valid_reg m (regs op ! varg op) then Crash OutOfBounds
      else (case PyList_New (varg op) (heap m) of
              (t, h1) \<Rightarrow>
                (case set_items PyList_SET_ITEM t (take (varg op) (regs op)) 0
                        (registers (frame m)) h1 of
                   Inl f \<Rightarrow> Crash f
                 | Inr h2 \<Rightarrow> Done (set_reg (regs op ! varg op) (Some t) (m\<lparr>heap := h2\<rparr>)))))"

subsection \<open>\<^verbatim>\<open>CallFunction\<close>\<close>

text \<open>
  The cached argument tuple: \<^verbatim>\<open>if (call_args == NULL || PyTuple_GET_SIZE(call_args) != na)
  { Py_XDECREF(call_args); call_args = PyTuple_New(na); }\<close>
\<close>

definition ensure_call_args :: "nat \<Rightarrow> machine \<Rightarrow> addr \<times> machine" where
  "ensure_call_args na m =
     (case (case call_args (frame m) of
              None \<Rightarrow> None
            | Some t \<Rightarrow> if length (tuple_items (heap m) (Some t)) \<noteq> na then None else Some t) of
        Some t \<Rightarrow> (t, m)
      | None \<Rightarrow>
          (case PyTuple_New na (Py_XDECREF (call_args (frame m)) (heap m)) of
             (t, h1) \<Rightarrow> (t, m\<lparr>heap := h1, frame := (frame m)\<lparr>call_args := Some t\<rparr>\<rparr>)))"

text \<open>
  The keyword loop \<^verbatim>\<open>for (i = na; i < nk * 2; i += 2) PyDict_SetItem(kwdict,
  registers[op->regs[i]], registers[op->regs[i + 1]])\<close>; \<open>bound\<close> is \<^verbatim>\<open>nk * 2\<close>.
\<close>

function kw_loop :: "nat \<Rightarrow> nat \<Rightarrow> addr \<Rightarrow> nat list \<Rightarrow> ptr list \<Rightarrow> world \<Rightarrow> fault + world" where
  "kw_loop i bound kwdict rgs rs h =
     (if i < bound
      then (if Suc i < length rgs \<and> rgs ! i < length rs \<and> rgs ! Suc i < length rs
            then (case (rs ! (rgs ! i), rs ! (rgs ! Suc i)) of
                    (Some k, Some v) \<Rightarrow>
                      kw_loop (i + 2) bound kwdict rgs rs (PyDict_SetItem kwdict k v h)
                  | _ \<Rightarrow> Inl NullDeref)
            else Inl OutOfBounds)
      else Inr h)"
  by pat_completeness auto
termination
  by (relation "measure (\<lambda>(i, bound, kwdict, rgs, rs, h). bound - i)") auto

declare kw_loop.simps [simp del]

definition build_kwdict :: "nat \<Rightarrow> nat \<Rightarrow> nat list \<Rightarrow> ptr list \<Rightarrow> world \<Rightarrow> fault + ptr \<times> world" where
  "build_kwdict na nk rgs rs h =
     (if nk > 0
      then (case PyDict_New h of
              (d, h1) \<Rightarrow>
                (case kw_loop na (nk * 2) d rgs rs h1 of
                   Inl f \<Rightarrow> Inl f
                 | Inr h2 \<Rightarrow> Inr (Some d, h2)))
      else Inr (None, h))"

text \<open>
  A nested \<^verbatim>\<open>eval_python\<close> is handed to the handler, as the \<^verbatim>\<open>Evaluator*\<close> is in C++:
  it takes the callee, the argument tuple, the world and the operation counter.
\<close>

type_synonym evpy = "ptr \<Rightarrow> ptr \<Rightarrow> world \<Rightarrow> int \<Rightarrow> (ptr \<times> world \<times> int, world \<times> int) res"

definition call_target ::
  "host \<Rightarrow> evpy \<Rightarrow> ptr \<Rightarrow> addr \<Rightarrow> ptr \<Rightarrow> machine \<Rightarrow> (ptr \<times> machine, machine) res" where
  "call_target H ev fn args kwdict m =
     (case fn of
        None \<Rightarrow> Crash NullDeref
      | Some f \<Rightarrow>
          if PyCFunction_Check (heap m) f
          then (case PyCFunction_Call H fn (Some args) kwdict (heap m) of
                  (r, h1) \<Rightarrow> Done (r, m\<lparr>heap := h1\<rparr>))
          else if kwdict = None
          then (case ev fn (Some args) (heap m) (total_count m) of
                  Done (r, h1, c1) \<Rightarrow> Done (r, m\<lparr>heap := h1, total_count := c1\<rparr>)
                | Throw_PyObject p (h1, c1) \<Rightarrow> Throw_PyObject p (m\<lparr>heap := h1, total_count := c1\<rparr>)
                | Throw_RException e (h1, c1) \<Rightarrow>
                    Throw_RException e (m\<lparr>heap := h1, total_count := c1\<rparr>)
                | Crash f \<Rightarrow> Crash f
                | NotModelled \<Rightarrow> NotModelled
                | OutOfFuel \<Rightarrow> OutOfFuel)
          else Done (None, m))"

definition CallFunction :: "host \<Rightarrow> evpy \<Rightarrow> VarRegOp \<Rightarrow> machine \<Rightarrow> mres" where
  "CallFunction H ev op m =
     (let na = varg op mod 256;
          nk = (varg op div 256) mod 256;
          n = nk * 2 + na
      in if \<not> n < length (regs op) then Crash OutOfBounds
         else if \<not> valid_reg m (regs op ! n) then Crash OutOfBounds
         else if n + 2 \<noteq> length (regs op) then Crash AssertFailed
         else (case ensure_call_args na m of
                 (args, m1) \<Rightarrow>
                   (case set_items PyTuple_SET_ITEM args (take na (regs op)) 0
                           (registers (frame m1)) (heap m1) of
                      Inl f \<Rightarrow> Crash f
                    | Inr h2 \<Rightarrow>
                        (case build_kwdict na nk (regs op) (registers (frame m1)) h2 of
                           Inl f \<Rightarrow> Crash f
                         | Inr (kwdict, h3) \<Rightarrow>
                             (case call_target H ev (reg m (regs op ! n)) args kwdict
                                     (m1\<lparr>heap := h3\<rparr>) of
                                Done (res0, m2) \<Rightarrow>
                                  (case (if res0 = None
                                         then PyObject_Call H (reg m (regs op ! n)) (Some args)
                                                kwdict (heap m2)
                                         else (res0, heap m2)) of
                                     (None, h4) \<Rightarrow>
                                       Throw_RException RException_pending (m2\<lparr>heap := h4\<rparr>)
                                   | (Some res, h4) \<Rightarrow>
                                       if \<not> valid_reg m2 (regs op ! (n + 1))
                                       then Crash OutOfBounds
                                       else Done (set_reg (regs op ! (n + 1)) (Some res)
                                                    (m2\<lparr>heap := Py_XDECREF
                                                        (reg m2 (regs op ! (n + 1))) h4\<rparr>)))
                              | Throw_PyObject p m2 \<Rightarrow> Throw_PyObject p m2
                              | Throw_RException e m2 \<Rightarrow> Throw_RException e m2
                              | Crash f \<Rightarrow> Crash f
                              | NotModelled \<Rightarrow> NotModelled
                              | OutOfFuel \<Rightarrow> OutOfFuel)))))"

section \<open>Dispatch\<close>

text \<open>
  A handler label of \<^verbatim>\<open>Evaluator::eval\<close>.  \<open>Other_h\<close> stands for the handlers outside this
  embedding (names, attributes, printing, slices, comparison); \<open>BAD_OP\<close> and \<open>BADCODE\<close>
  are the rejecting labels.
\<close>

datatype handler =
    BinaryOpWithSpecialization_h binfn intfn
  | BinaryOp_h binfn
  | UnaryOp_h unfn
  | UnaryNot_h | BinaryPower_h | BinarySubscr_h | InplacePower_h
  | IncRef_h | DecRef_h | LoadFast_h | StoreFast_h
  | CallFunction_h | GetIter_h | ForIter_h
  | JumpIfFalseOrPop_h | JumpIfTrueOrPop_h | JumpAbsolute_h
  | ReturnValue_h | BuildTuple_h | BuildList_h
  | Other_h string
  | BAD_OP string
  | BADCODE

text \<open>The table \<^verbatim>\<open>labels[]\<close>, indexed by the opcode byte, in the order of the source.\<close>

definition labels :: "handler list" where
  "labels =
    [
     BAD_OP ''STOP_CODE'', BAD_OP ''POP_TOP'', BAD_OP ''ROT_TWO'', BAD_OP ''ROT_THREE'',
      BAD_OP ''DUP_TOP'', BAD_OP ''ROT_FOUR'', BADCODE, BADCODE, BADCODE, BAD_OP ''NOP'',
      UnaryOp_h PyNumber_Positive, UnaryOp_h PyNumber_Negative, UnaryNot_h,
      UnaryOp_h PyObject_Repr, BADCODE, UnaryOp_h PyNumber_Invert, BADCODE, BADCODE, BADCODE,
      BinaryPower_h, BinaryOpWithSpecialization_h PyNumber_Multiply IntegerOps_mul_f,
      BinaryOpWithSpecialization_h PyNumber_Divide IntegerOps_div_f,
      BinaryOpWithSpecialization_h PyNumber_Remainder IntegerOps_mod_f,
      BinaryOpWithSpecialization_h PyNumber_Add IntegerOps_add_f,
      BinaryOpWithSpecialization_h PyNumber_Subtract IntegerOps_sub_f, BinarySubscr_h,
      BinaryOp_h PyNumber_FloorDivide, BinaryOp_h PyNumber_TrueDivide,
      BinaryOp_h PyNumber_InPlaceFloorDivide, BinaryOp_h PyNumber_InPlaceTrueDivide,
      Other_h ''Slice'', Other_h ''Slice'', Other_h ''Slice'', Other_h ''Slice'', BADCODE,
      BADCODE, BADCODE, BADCODE, BADCODE, BADCODE, BAD_OP ''STORE_SLICE'',
      BAD_OP ''STORE_SLICE'', BAD_OP ''STORE_SLICE'', BAD_OP ''STORE_SLICE'', BADCODE, BADCODE,
      BADCODE, BADCODE, BADCODE, BADCODE, BAD_OP ''DELETE_SLICE'', BAD_OP ''DELETE_SLICE'',
      BAD_OP ''DELETE_SLICE'', BAD_OP ''DELETE_SLICE'', BAD_OP ''STORE_MAP'',
      BinaryOpWithSpecialization_h PyNumber_InPlaceAdd IntegerOps_add_f,
      BinaryOpWithSpecialization_h PyNumber_InPlaceSubtract IntegerOps_sub_f,
      BinaryOpWithSpecialization_h PyNumber_InPlaceMultiply IntegerOps_mul_f,
      BinaryOpWithSpecialization_h PyNumber_InPlaceDivide IntegerOps_div_f,
      BinaryOpWithSpecialization_h PyNumber_InPlaceRemainder IntegerOps_mod_f,
      Other_h ''StoreSubscr'', BAD_OP ''DELETE_SUBSCR'', BinaryOp_h PyNumber_Lshift,
      BinaryOp_h PyNumber_Rshift, BinaryOp_h PyNumber_And, BinaryOp_h PyNumber_Xor,
      BinaryOp_h PyNumber_Or, InplacePower_h, GetIter_h, BADCODE, BAD_OP ''PRINT_EXPR'',
      Other_h ''PrintItem'', Other_h ''PrintNewline'', Other_h ''PrintItem'',
      Other_h ''PrintNewline'', BinaryOp_h PyNumber_InPlaceLshift,
      BinaryOp_h PyNumber_InPlaceRshift, BinaryOp_h PyNumber_InPlaceAnd,
      BinaryOp_h PyNumber_InPlaceXor, BinaryOp_h PyNumber_InPlaceOr, BAD_OP ''BREAK_LOOP'',
      BAD_OP ''WITH_CLEANUP'', Other_h ''LoadLocals'', ReturnValue_h, BAD_OP ''IMPORT_STAR'',
      BAD_OP ''EXEC_STMT'', BAD_OP ''YIELD_VALUE'', BAD_OP ''POP_BLOCK'',
      BAD_OP ''END_FINALLY'', BAD_OP ''BUILD_CLASS'', Other_h ''StoreName'',
      BAD_OP ''DELETE_NAME'', BAD_OP ''UNPACK_SEQUENCE'', ForIter_h, Other_h ''ListAppend'',
      Other_h ''StoreAttr'', BAD_OP ''DELETE_ATTR'', BAD_OP ''STORE_GLOBAL'',
      BAD_OP ''DELETE_GLOBAL'', BAD_OP ''DUP_TOPX'', BAD_OP ''LOAD_CONST'',
      Other_h ''LoadName'', BuildTuple_h, BuildList_h, BAD_OP ''BUILD_SET'',
      BAD_OP ''BUILD_MAP'', Other_h ''LoadAttr'', Other_h ''CompareOp'',
      BAD_OP ''IMPORT_NAME'', BAD_OP ''IMPORT_FROM'', BAD_OP ''JUMP_FORWARD'',
      JumpIfFalseOrPop_h, JumpIfTrueOrPop_h, JumpAbsolute_h, JumpIfFalseOrPop_h,
      JumpIfTrueOrPop_h, Other_h ''LoadGlobal'', BADCODE, BADCODE, BAD_OP ''CONTINUE_LOOP'',
      BAD_OP ''SETUP_LOOP'', BAD_OP ''SETUP_EXCEPT'', BAD_OP ''SETUP_FINALLY'', BADCODE,
      LoadFast_h, StoreFast_h, BAD_OP ''DELETE_FAST'', BADCODE, BADCODE, BADCODE,
      BAD_OP ''RAISE_VARARGS'', CallFunction_h, BAD_OP ''MAKE_FUNCTION'',
      BAD_OP ''BUILD_SLICE'', BAD_OP ''MAKE_CLOSURE'', BAD_OP ''LOAD_CLOSURE'',
      BAD_OP ''LOAD_DEREF'', BAD_OP ''STORE_DEREF'', BADCODE, BADCODE, CallFunction_h,
      CallFunction_h, CallFunction_h, BAD_OP ''SETUP_WITH'', BADCODE, BAD_OP ''EXTENDED_ARG'',
      BAD_OP ''SET_ADD'', BAD_OP ''MAP_ADD'', IncRef_h, DecRef_h, Other_h ''ConstIndex''
    ]"

text \<open>
  The three \<^verbatim>\<open>Op<Shape, SubType>::eval\<close> wrappers: decode the instruction at \<^verbatim>\<open>pc\<close>,
  advance \<^verbatim>\<open>pc\<close> for the fixed and the variable shape, and run the handler.
\<close>

definition Op_RegOp :: "layout \<Rightarrow> instr \<Rightarrow> machine \<Rightarrow> (RegOp \<Rightarrow> machine \<Rightarrow> mres) \<Rightarrow> mres" where
  "Op_RegOp L ins m k =
     (case ins of I_RegOp op \<Rightarrow> k op (m\<lparr>pc := pc m + sizeof_RegOp L\<rparr>) | _ \<Rightarrow> Crash BadInstruction)"

definition Op_VarRegOp :: "layout \<Rightarrow> instr \<Rightarrow> machine \<Rightarrow> (VarRegOp \<Rightarrow> machine \<Rightarrow> mres) \<Rightarrow> mres" where
  "Op_VarRegOp L ins m k =
     (case ins of I_VarRegOp op \<Rightarrow> k op (m\<lparr>pc := pc m + size_VarRegOp L op\<rparr>)
      | _ \<Rightarrow> Crash BadInstruction)"

definition Op_BranchOp :: "instr \<Rightarrow> machine \<Rightarrow> (BranchOp \<Rightarrow> machine \<Rightarrow> mres) \<Rightarrow> mres" where
  "Op_BranchOp ins m k = (case ins of I_BranchOp op \<Rightarrow> k op m | _ \<Rightarrow> Crash BadInstruction)"

definition exec_handler :: "host \<Rightarrow> layout \<Rightarrow> evpy \<Rightarrow> handler \<Rightarrow> instr \<Rightarrow> machine \<Rightarrow> mres" where
  "exec_handler H L ev lbl ins m =
     (case lbl of
        BinaryOpWithSpecialization_h f g \<Rightarrow>
          Op_RegOp L ins m (BinaryOpWithSpecialization (BinaryFunction H f) (IntegerF g))
      | BinaryOp_h f \<Rightarrow> Op_RegOp L ins m (BinaryOp (BinaryFunction H f))
      | UnaryOp_h f \<Rightarrow> Op_RegOp L ins m (UnaryOp (UnaryFunction H f))
      | UnaryNot_h \<Rightarrow> Op_RegOp L ins m (UnaryNot (PyObject_IsTrue H))
      | BinaryPower_h \<Rightarrow> Op_RegOp L ins m (BinaryPower (PyNumber_Power H))
      | BinarySubscr_h \<Rightarrow> Op_RegOp L ins m (BinarySubscr (PyObject_GetItem H))
      | InplacePower_h \<Rightarrow> Op_RegOp L ins m (InplacePower (PyNumber_Power H))
      | IncRef_h \<Rightarrow> Op_RegOp L ins m IncRef
      | DecRef_h \<Rightarrow> Op_RegOp L ins m DecRef
      | LoadFast_h \<Rightarrow> Op_RegOp L ins m LoadFast
      | StoreFast_h \<Rightarrow> Op_RegOp L ins m StoreFast
      | CallFunction_h \<Rightarrow> Op_VarRegOp L ins m (CallFunction H ev)
      | GetIter_h \<Rightarrow> Op_RegOp L ins m (GetIter (PyObject_GetIter H))
      | ForIter_h \<Rightarrow> Op_BranchOp ins m (ForIter L (PyIter_Next H))
      | JumpIfFalseOrPop_h \<Rightarrow> Op_BranchOp ins m (JumpIfFalseOrPop L (PyObject_IsTrue H))
      | JumpIfTrueOrPop_h \<Rightarrow> Op_BranchOp ins m (JumpIfTrueOrPop L (PyObject_IsTrue H))
      | JumpAbsolute_h \<Rightarrow> Op_BranchOp ins m JumpAbsolute
      | ReturnValue_h \<Rightarrow> Op_RegOp L ins m ReturnValue
      | BuildTuple_h \<Rightarrow> Op_VarRegOp L ins m BuildTuple
      | BuildList_h \<Rightarrow> Op_VarRegOp L ins m BuildList
      | Other_h name \<Rightarrow> NotModelled
      | BAD_OP name \<Rightarrow>
          Throw_RException (RException_new PyExc_SystemError (''Bad opcode '' @ name)) m
      | BADCODE \<Rightarrow> Throw_RException (RException_new PyExc_SystemError ''Invalid jump.'') m)"

text \<open>
  One round of the threaded dispatch: \<^verbatim>\<open>goto *labels[frame->next_code(pc)]\<close> and the
  handler behind the label.  The macro \<^verbatim>\<open>_DEFINE_OP\<close> has its call of \<^verbatim>\<open>collectInfo\<close>
  inside a comment, so no round calls \<open>collect_info\<close>.
\<close>

definition dispatch :: "host \<Rightarrow> layout \<Rightarrow> evpy \<Rightarrow> machine \<Rightarrow> mres" where
  "dispatch H L ev m =
     (case instructions (frame_code (frame m)) (pc m) of
        None \<Rightarrow> Crash BadInstruction
      | Some ins \<Rightarrow>
          if next_code ins < length labels
          then exec_handler H L ev (labels ! next_code ins) ins m
          else Crash OutOfBounds)"

fun run_loop :: "(machine \<Rightarrow> mres) \<Rightarrow> nat \<Rightarrow> machine \<Rightarrow> mres" where
  "run_loop stp 0 m = OutOfFuel"
| "run_loop stp (Suc n) m = (case stp m of Done m' \<Rightarrow> run_loop stp n m' | r \<Rightarrow> r)"

section \<open>\<^verbatim>\<open>Evaluator::eval\<close> and \<^verbatim>\<open>Evaluator::eval_python\<close>\<close>

text \<open>
  Modelled from the spec: the class \<^verbatim>\<open>RException\<close> is declared in a header that is not
  among the sources.  An exception built from a kind and a message sets that error; the
  default exception keeps the error the host has pending ("kind, message, and any attached
  host-error state are preserved verbatim").
\<close>

definition set_python_err :: "rexception \<Rightarrow> world \<Rightarrow> world" where
  "set_python_err e h =
     (case e of RException_new k msg \<Rightarrow> h\<lparr>err_occurred := Some k\<rparr> | RException_pending \<Rightarrow> h)"

text \<open>
  The two \<^verbatim>\<open>catch\<close> clauses of \<^verbatim>\<open>eval\<close>.  The dispatch loop has no exit but a
  \<^verbatim>\<open>throw\<close>.  \<^verbatim>\<open>Reg_Assert(error.exception != NULL, ...)\<close> fails for a default exception
  when the host has no error pending.
\<close>

definition eval_catch :: "mres \<Rightarrow> (ptr \<times> machine, machine) res" where
  "eval_catch r =
     (case r of
        Throw_PyObject result m \<Rightarrow> Done (result, m)
      | Throw_RException e m \<Rightarrow>
          if e = RException_pending \<and> err_occurred (heap m) = None then Crash AssertFailed
          else Done (None, m\<lparr>heap := set_python_err e (heap m)\<rparr>)
      | Done m \<Rightarrow> Crash BadInstruction
      | Crash f \<Rightarrow> Crash f
      | NotModelled \<Rightarrow> NotModelled
      | OutOfFuel \<Rightarrow> OutOfFuel)"

definition eval ::
  "host \<Rightarrow> layout \<Rightarrow> evpy \<Rightarrow> nat \<Rightarrow> RegisterFrame \<Rightarrow> world \<Rightarrow> int \<Rightarrow> (ptr \<times> machine, machine) res" where
  "eval H L ev n fr h c =
     (if co_cellvars (frame_code fr) \<noteq> 0 then Crash AssertFailed
      else eval_catch
             (run_loop (dispatch H L ev) n \<lparr>heap = h, total_count = c, frame = fr, pc = 0\<rparr>))"

definition frame_from_python ::
  "host \<Rightarrow> ptr \<Rightarrow> ptr \<Rightarrow> world \<Rightarrow> (RegisterFrame option \<times> world, world) res" where
  "frame_from_python H obj args h =
     (if (case args of None \<Rightarrow> True | Some a \<Rightarrow> \<not> PyTuple_Check h a)
      then Throw_RException
             (RException_new PyExc_TypeError ''Expected function argument tuple'') h
      else (case compile H obj h of
              None \<Rightarrow> Done (None, h)
            | Some regcode \<Rightarrow>
                (case RegisterFrame_ctor regcode obj args None h of
                   Done (fr, h1) \<Rightarrow> Done (Some fr, h1)
                 | Throw_PyObject p h1 \<Rightarrow> Throw_PyObject p h1
                 | Throw_RException e h1 \<Rightarrow> Throw_RException e h1
                 | Crash f \<Rightarrow> Crash f
                 | NotModelled \<Rightarrow> NotModelled
                 | OutOfFuel \<Rightarrow> OutOfFuel)))"

text \<open>
  \<^verbatim>\<open>eval_python\<close>: build the frame, run it, \<^verbatim>\<open>delete frame\<close>, return the result.  The
  fuel bounds the dispatch rounds of the frame and the depth of nested calls.
\<close>

definition eval_python_body :: "host \<Rightarrow> layout \<Rightarrow> evpy \<Rightarrow> nat \<Rightarrow> evpy" where
  "eval_python_body H L ev n func args h c =
     (case frame_from_python H func args h of
        Done (None, h1) \<Rightarrow> Done (None, h1, c)
      | Done (Some fr, h1) \<Rightarrow>
          (case eval H L ev n fr h1 c of
             Done (result, m) \<Rightarrow>
               Done (result, RegisterFrame_dtor (frame m) (heap m), total_count m)
           | Throw_PyObject p m \<Rightarrow> Throw_PyObject p (heap m, total_count m)
           | Throw_RException e m \<Rightarrow> Throw_RException e (heap m, total_count m)
           | Crash f \<Rightarrow> Crash f
           | NotModelled \<Rightarrow> NotModelled
           | OutOfFuel \<Rightarrow> OutOfFuel)
      | Throw_PyObject p h1 \<Rightarrow> Throw_PyObject p (h1, c)
      | Throw_RException e h1 \<Rightarrow> Throw_RException e (h1, c)
      | Crash f \<Rightarrow> Crash f
      | NotModelled \<Rightarrow> NotModelled
      | OutOfFuel \<Rightarrow> OutOfFuel)"

primrec eval_python :: "host \<Rightarrow> layout \<Rightarrow> nat \<Rightarrow> evpy" where
  "eval_python H L 0 = (\<lambda>func args h c. OutOfFuel)"
| "eval_python H L (Suc n) = eval_python_body H L (eval_python H L n) (Suc n)"


section \<open>The operation counter across a result\<close>

text \<open>
  \<open>same_count c r\<close>: a result \<open>r\<close> that carries a machine carries it with the counter at
  \<open>c\<close>.  \<open>ev_same_count ev\<close>: the nested evaluator \<open>ev\<close> hands the counter back as it got it.
\<close>

definition same_count :: "int \<Rightarrow> mres \<Rightarrow> bool" where
  "same_count c r =
     (case r of
        Done m \<Rightarrow> total_count m = c
      | Throw_PyObject p m \<Rightarrow> total_count m = c
      | Throw_RException e m \<Rightarrow> total_count m = c
      | Crash f \<Rightarrow> True
      | NotModelled \<Rightarrow> True
      | OutOfFuel \<Rightarrow> True)"

definition ev_same_count :: "evpy \<Rightarrow> bool" where
  "ev_same_count ev =
     (\<forall>fn a h c.
        case ev fn a h c of
          Done (r, h', c') \<Rightarrow> c' = c
        | Throw_PyObject p (h', c') \<Rightarrow> c' = c
        | Throw_RException e (h', c') \<Rightarrow> c' = c
        | Crash f \<Rightarrow> True
        | NotModelled \<Rightarrow> True
        | OutOfFuel \<Rightarrow> True)"

section \<open>Concrete inputs\<close>

text \<open>
  A small world, a layout and a host to run the engine on.  The world holds the integers
  \<open>3\<close>, \<open>4\<close>, \<open>7\<close>, \<open>-1\<close>, \<open>5\<close>, \<open>-7\<close>, \<open>2\<close>, the function \<^verbatim>\<open>def f(a, b=7): return a+b\<close>
  with its defaults tuple \<^verbatim>\<open>(7,)\<close>, the argument tuples \<^verbatim>\<open>(3,)\<close>, \<^verbatim>\<open>(3, 4)\<close> and \<^verbatim>\<open>()\<close> and the
  list \<^verbatim>\<open>[3, 4, 7]\<close>; every object starts with one reference.
\<close>

definition w0 :: world where
  "w0 = \<lparr>ob_refcnt = (\<lambda>a. 1),
          ob_val = (\<lambda>a. PyOther 0)
            (10 := PyInt 3, 11 := PyInt 4, 12 := PyInt 7, 13 := PyTuple [Some 12],
             14 := PyFunction (Some 13), 15 := PyTuple [Some 10],
             16 := PyTuple [Some 10, Some 11], 17 := PyTuple [], 20 := PyList [Some 10, Some 11, Some 12],
             21 := PyInt (- 1), 22 := PyInt 5, 23 := PyInt (- 7), 24 := PyInt 2),
          deallocated = [], err_occurred = None, next_free = 100\<rparr>"

definition L0 :: layout where
  "L0 = \<lparr>sizeof_RegOp = 12, sizeof_BranchOp = 8,
          size_VarRegOp = (\<lambda>op. 4 + 2 * length (regs op))\<rparr>"

text \<open>A host call that fails: it returns \<^verbatim>\<open>NULL\<close> and leaves an error of kind \<open>k\<close> pending.\<close>

definition failing :: "exc_kind \<Rightarrow> world \<Rightarrow> ptr \<times> world" where
  "failing k h = (None, h\<lparr>err_occurred := Some k\<rparr>)"

text \<open>
  A host whose generic operations all fail (as they do for operands of unsupported types,
  for an index out of range, or for an iterator that raises), whose generic call hands back
  the keyword dictionary it was given, and whose compiler knows the code objects \<open>codes\<close>.
\<close>

definition H0 :: "(addr \<Rightarrow> RegisterCode option) \<Rightarrow> host" where
  "H0 codes =
     \<lparr>BinaryFunction = (\<lambda>f a b. failing PyExc_TypeError),
      UnaryFunction = (\<lambda>f a. failing PyExc_TypeError),
      PyNumber_Power = (\<lambda>a b c. failing PyExc_TypeError),
      PyObject_GetItem = (\<lambda>c k. failing PyExc_IndexError),
      PyObject_GetIter = (\<lambda>a. failing PyExc_TypeError),
      PyIter_Next = (\<lambda>a. failing PyExc_TypeError),
      PyObject_IsTrue = (\<lambda>a h. (1, h)),
      PyObject_Call = (\<lambda>f a k h. (k, Py_XINCREF k h)),
      PyCFunction_Call = (\<lambda>f a k. failing PyExc_TypeError),
      compile = (\<lambda>obj h. case obj of None \<Rightarrow> None | Some a \<Rightarrow> codes a)\<rparr>"

definition no_codes :: "addr \<Rightarrow> RegisterCode option" where
  "no_codes a = None"

text \<open>A code object with the given instruction stream, one constant (\<^verbatim>\<open>None\<close>) and no parameters.\<close>

definition code_of :: "(nat \<Rightarrow> instr option) \<Rightarrow> nat \<Rightarrow> RegisterCode" where
  "code_of is n =
     \<lparr>instructions = is, co_consts = [Some Py_None], num_registers = n, co_argcount = 0,
      co_cellvars = 0, code_function = None\<rparr>"

definition frame_of :: "(nat \<Rightarrow> instr option) \<Rightarrow> ptr list \<Rightarrow> RegisterFrame" where
  "frame_of is rs =
     \<lparr>frame_code = code_of is (length rs), frame_kw = None, call_args = None, registers = rs\<rparr>"

definition machine_of :: "(nat \<Rightarrow> instr option) \<Rightarrow> ptr list \<Rightarrow> world \<Rightarrow> machine" where
  "machine_of is rs h = \<lparr>heap = h, total_count = 0, frame = frame_of is rs, pc = 0\<rparr>"

text \<open>
  The register code of \<^verbatim>\<open>def f(a, b=7): return a+b\<close>: register 0 holds the constant
  \<^verbatim>\<open>None\<close>, registers 1 and 2 the parameters; \<^verbatim>\<open>BINARY_ADD 1, 2 -> 3\<close>, then
  \<^verbatim>\<open>RETURN_VALUE 3\<close>.
\<close>

definition code_f :: RegisterCode where
  "code_f =
     \<lparr>instructions = (\<lambda>off. None)(0 := Some (I_RegOp (RegOp 23 0 1 2 3 0)),
                                   12 := Some (I_RegOp (RegOp 83 0 3 0 0 0))),
      co_consts = [Some Py_None], num_registers = 4, co_argcount = 2, co_cellvars = 0,
      code_function = Some 14\<rparr>"

definition codes_f :: "addr \<Rightarrow> RegisterCode option" where
  "codes_f a = (if a = 14 then Some code_f else None)"

text \<open>\<^verbatim>\<open>while True: pass\<close>: a \<^verbatim>\<open>JUMP_ABSOLUTE\<close> to its own offset.\<close>

definition loop_is :: "nat \<Rightarrow> instr option" where
  "loop_is = (\<lambda>off. None)(0 := Some (I_BranchOp (BranchOp 113 0 0 0)))"

text \<open>\<^verbatim>\<open>FOR_ITER 1, 2, label 20\<close>, and at offset 20 \<^verbatim>\<open>RETURN_VALUE 0\<close>.\<close>

definition for_is :: "nat \<Rightarrow> instr option" where
  "for_is = (\<lambda>off. None)(0 := Some (I_BranchOp (BranchOp 93 1 2 20)),
                          20 := Some (I_RegOp (RegOp 83 0 0 0 0 0)))"

text \<open>\<^verbatim>\<open>BINARY_OR 1, 2 -> 3\<close>, then \<^verbatim>\<open>RETURN_VALUE 0\<close>.\<close>

definition or_is :: "nat \<Rightarrow> instr option" where
  "or_is = (\<lambda>off. None)(0 := Some (I_RegOp (RegOp 66 0 1 2 3 0)),
                         12 := Some (I_RegOp (RegOp 83 0 0 0 0 0)))"

text \<open>\<^verbatim>\<open>BINARY_SUBSCR 1, 2 -> 3\<close>, then \<^verbatim>\<open>RETURN_VALUE 3\<close>.\<close>

definition subscr_is :: "nat \<Rightarrow> instr option" where
  "subscr_is = (\<lambda>off. None)(0 := Some (I_RegOp (RegOp 25 0 1 2 3 0)),
                             12 := Some (I_RegOp (RegOp 83 0 3 0 0 0)))"


section \<open>Basic facts\<close>

lemma length_labels: "length labels = 151"
  by (simp add: labels_def)

lemma labels_FOR_ITER: "labels ! 93 = ForIter_h"
  by (simp add: labels_def)

lemma labels_RETURN_VALUE: "labels ! 83 = ReturnValue_h"
  by (simp add: labels_def)

lemmas refcount_defs = Py_INCREF_def Py_DECREF_def Py_XINCREF_def Py_XDECREF_def

lemmas fixture_defs = w0_def L0_def H0_def failing_def no_codes_def code_of_def frame_of_def
  machine_of_def Py_None_def Py_True_def Py_False_def

lemmas wrapper_defs = dispatch_def exec_handler_def Op_RegOp_def Op_VarRegOp_def Op_BranchOp_def
  length_labels reg_def valid_reg_def set_reg_def eval_def eval_catch_def set_python_err_def

section \<open>\<^verbatim>\<open>FOR_ITER\<close>\<close>

text \<open>
  Claim C10.  For a \<^verbatim>\<open>FOR_ITER\<close> instruction at \<^verbatim>\<open>pc\<close>: whenever the iter-next call returns
  \<^verbatim>\<open>NULL\<close>, whatever world \<open>h1\<close> it leaves (an exhausted iterator or an error pending),
  the dispatch round ends with \<^verbatim>\<open>pc\<close> at the label, the registers untouched and the world
  as iter-next left it, and the loop goes on from there: nothing is thrown.  A round that
  changes the register file is one where iter-next returned a value.
\<close>

theorem for_iter_null_jumps:
  assumes "instructions (frame_code (frame m)) (pc m) = Some (I_BranchOp op)"
    and "bcode op = 93"
    and "valid_reg m (breg_1 op)"
  shows "(PyIter_Next H (reg m (breg_1 op)) (heap m) = (None, h1) \<longrightarrow>
            dispatch H L ev m = Done (m\<lparr>heap := h1, pc := label op\<rparr>)
          \<and> run_loop (dispatch H L ev) (Suc n) m
              = run_loop (dispatch H L ev) n (m\<lparr>heap := h1, pc := label op\<rparr>))
       \<and> (\<forall>m'. dispatch H L ev m = Done m' \<longrightarrow> registers (frame m') \<noteq> registers (frame m)
            \<longrightarrow> (\<exists>v. fst (PyIter_Next H (reg m (breg_1 op)) (heap m)) = Some v))"
  using assms
  by (auto simp: dispatch_def length_labels labels_FOR_ITER exec_handler_def Op_BranchOp_def
        ForIter_def set_reg_def split: prod.splits option.splits if_splits)

text \<open>
  The theorem at a \<^verbatim>\<open>FOR_ITER\<close> whose iterator raises a \<^verbatim>\<open>TypeError\<close>: the round jumps to
  offset 20, and \<^verbatim>\<open>eval\<close> returns the value of the \<^verbatim>\<open>RETURN_VALUE\<close> found there, with the
  error still pending and register 2 never written.
\<close>

theorem for_iter_null_jumps_witness:
  "dispatch (H0 no_codes) L0 (eval_python (H0 no_codes) L0 0)
       (machine_of for_is [Some Py_None, Some 20, None] w0)
     = Done ((machine_of for_is [Some Py_None, Some 20, None] w0)
               \<lparr>heap := w0\<lparr>err_occurred := Some PyExc_TypeError\<rparr>, pc := 20\<rparr>)
   \<and> (case eval (H0 no_codes) L0 (eval_python (H0 no_codes) L0 0) (Suc (Suc 0))
             (frame_of for_is [Some Py_None, Some 20, None]) w0 0 of
         Done (r, m') \<Rightarrow> r = Some Py_None \<and> registers (frame m') = [Some Py_None, Some 20, None]
                          \<and> err_occurred (heap m') = Some PyExc_TypeError
       | _ \<Rightarrow> False)"
proof -
  let ?m = "machine_of for_is [Some Py_None, Some 20, None] w0"
  let ?H = "H0 no_codes"
  let ?ev = "eval_python ?H L0 0"
  let ?h1 = "w0\<lparr>err_occurred := Some PyExc_TypeError\<rparr>"
  have a: "instructions (frame_code (frame ?m)) (pc ?m) = Some (I_BranchOp (BranchOp 93 1 2 20))"
    by (simp add: fixture_defs for_is_def)
  have b: "bcode (BranchOp 93 1 2 20) = 93" by simp
  have c: "valid_reg ?m (breg_1 (BranchOp 93 1 2 20))"
    by (simp add: fixture_defs valid_reg_def)
  have d: "PyIter_Next ?H (reg ?m (breg_1 (BranchOp 93 1 2 20))) (heap ?m) = (None, ?h1)"
    by (simp add: fixture_defs)
  from for_iter_null_jumps [OF a b c, of ?H ?h1 L0 ?ev "Suc 0"] d
  have e: "dispatch ?H L0 ?ev ?m = Done (?m\<lparr>heap := ?h1, pc := 20\<rparr>)"
    and f: "run_loop (dispatch ?H L0 ?ev) (Suc (Suc 0)) ?m
              = run_loop (dispatch ?H L0 ?ev) (Suc 0) (?m\<lparr>heap := ?h1, pc := 20\<rparr>)"
    by simp_all
  have g: "run_loop (dispatch ?H L0 ?ev) (Suc 0) (?m\<lparr>heap := ?h1, pc := 20\<rparr>)
             = Throw_PyObject (Some Py_None)
                 (?m\<lparr>heap := Py_INCREF Py_None ?h1, pc := 32\<rparr>)"
    by (simp add: fixture_defs for_is_def wrapper_defs labels_RETURN_VALUE ReturnValue_def)
  have h: "eval ?H L0 ?ev (Suc (Suc 0)) (frame_of for_is [Some Py_None, Some 20, None]) w0 0
             = Done (Some Py_None, ?m\<lparr>heap := Py_INCREF Py_None ?h1, pc := 32\<rparr>)"
    using f g by (simp add: eval_def eval_catch_def machine_of_def frame_of_def code_of_def)
  show ?thesis
    using e h by (simp add: fixture_defs refcount_defs)
qed


section \<open>\<^verbatim>\<open>BINARY_SUBSCR\<close>\<close>

lemma labels_BINARY_SUBSCR: "labels ! 25 = BinarySubscr_h"
  by (simp add: labels_def)

lemma subscr_fast_in_range:
  assumes "ob_val h l = PyList items" and "ob_val h k = PyInt i"
    and "- int (length items) \<le> sint i" and "sint i < int (length items)"
    and "items ! nat (if sint i < 0 then sint i + int (length items) else sint i) = Some e"
  shows "subscr_fast h (Some l) (Some k) = Inr (Some e)"
  using assms
  by (auto simp: subscr_fast_def PyList_CheckExact_def PyInt_CheckExact_def PyInt_AS_LONG_def
        list_items_def Let_def)

lemma subscr_fast_out_of_range:
  assumes "ob_val h l = PyList items" and "ob_val h k = PyInt i"
    and "\<not> (- int (length items) \<le> sint i \<and> sint i < int (length items))"
  shows "subscr_fast h (Some l) (Some k) = Inr None"
  using assms
  by (auto simp: subscr_fast_def PyList_CheckExact_def PyInt_CheckExact_def PyInt_AS_LONG_def
        list_items_def Let_def)

text \<open>
  Claim C9.  For a \<^verbatim>\<open>BINARY_SUBSCR\<close> at \<^verbatim>\<open>pc\<close> whose container register holds an exact list
  \<open>items\<close> and whose key register an exact integer \<open>i\<close>: when \<open>-L \<le> i < L\<close>, register
  \<^verbatim>\<open>reg_3\<close> receives the element at index \<open>i\<close> (\<open>i + L\<close> for a negative \<open>i\<close>), retained, and its
  prior occupant is released.  When \<open>i\<close> is out of range the generic item-get decides: if it
  fails with an \<^verbatim>\<open>IndexError\<close>, the handler throws and \<^verbatim>\<open>eval\<close> returns \<^verbatim>\<open>NULL\<close> with that
  error pending.
\<close>

theorem binary_subscr_list_index:
  assumes ins: "instructions (frame_code (frame m)) (pc m) = Some (I_RegOp op)" "code op = 25"
    and valid: "valid_reg m (reg_1 op)" "valid_reg m (reg_2 op)" "valid_reg m (reg_3 op)"
    and lst: "reg m (reg_1 op) = Some l" "ob_val (heap m) l = PyList items"
    and key: "reg m (reg_2 op) = Some k" "ob_val (heap m) k = PyInt i"
  shows "(- int (length items) \<le> sint i \<and> sint i < int (length items) \<longrightarrow>
           (items ! nat (if sint i < 0 then sint i + int (length items) else sint i) = Some e \<longrightarrow>
              dispatch H L ev m
                = Done (set_reg (reg_3 op) (Some e)
                         (m\<lparr>heap := Py_XDECREF (reg m (reg_3 op)) (Py_INCREF e (heap m)),
                            pc := pc m + sizeof_RegOp L\<rparr>))))
       \<and> (\<not> (- int (length items) \<le> sint i \<and> sint i < int (length items)) \<longrightarrow>
           (PyObject_GetItem H (Some l) (Some k) (heap m) = (None, h1)
                  \<and> err_occurred h1 = Some PyExc_IndexError \<longrightarrow>
              dispatch H L ev m
                = Throw_RException RException_pending (m\<lparr>heap := h1, pc := pc m + sizeof_RegOp L\<rparr>)
              \<and> eval_catch (run_loop (dispatch H L ev) (Suc n) m)
                  = Done (None, m\<lparr>heap := h1, pc := pc m + sizeof_RegOp L\<rparr>)))"
proof (intro conjI impI)
  assume r: "- int (length items) \<le> sint i \<and> sint i < int (length items)"
    and e: "items ! nat (if sint i < 0 then sint i + int (length items) else sint i) = Some e"
  have "subscr_fast (heap m) (Some l) (Some k) = Inr (Some e)"
    using lst(2) key(2) r e by (intro subscr_fast_in_range) auto
  then show "dispatch H L ev m
                = Done (set_reg (reg_3 op) (Some e)
                         (m\<lparr>heap := Py_XDECREF (reg m (reg_3 op)) (Py_INCREF e (heap m)),
                            pc := pc m + sizeof_RegOp L\<rparr>))"
    using ins valid lst(1) key(1)
    by (simp add: dispatch_def length_labels labels_BINARY_SUBSCR exec_handler_def Op_RegOp_def
          BinarySubscr_def reg_def valid_reg_def set_reg_def)
next
  assume r: "\<not> (- int (length items) \<le> sint i \<and> sint i < int (length items))"
    and g: "PyObject_GetItem H (Some l) (Some k) (heap m) = (None, h1)
              \<and> err_occurred h1 = Some PyExc_IndexError"
  have f: "subscr_fast (heap m) (Some l) (Some k) = Inr None"
    using lst(2) key(2) r by (rule subscr_fast_out_of_range)
  show d: "dispatch H L ev m
         = Throw_RException RException_pending (m\<lparr>heap := h1, pc := pc m + sizeof_RegOp L\<rparr>)"
    using ins valid lst(1) key(1) f g
    by (simp add: dispatch_def length_labels labels_BINARY_SUBSCR exec_handler_def Op_RegOp_def
          BinarySubscr_def reg_def valid_reg_def set_reg_def)
  show "eval_catch (run_loop (dispatch H L ev) (Suc n) m)
          = Done (None, m\<lparr>heap := h1, pc := pc m + sizeof_RegOp L\<rparr>)"
    using g by (simp add: d eval_catch_def set_python_err_def)
qed

text \<open>
  The theorem at \<^verbatim>\<open>[3, 4, 7][-1]\<close>, which puts the object \<open>7\<close> (address 12) into register 3
  and retains it, and at \<^verbatim>\<open>[3, 4, 7][5]\<close>, where \<^verbatim>\<open>eval\<close> returns \<^verbatim>\<open>NULL\<close> with the
  \<^verbatim>\<open>IndexError\<close> of the host pending.
\<close>

theorem binary_subscr_list_index_witness:
  "dispatch (H0 no_codes) L0 (eval_python (H0 no_codes) L0 0)
       (machine_of subscr_is [Some Py_None, Some 20, Some 21, None] w0)
     = Done (machine_of subscr_is [Some Py_None, Some 20, Some 21, Some 12] (Py_INCREF 12 w0)
              \<lparr>pc := 12\<rparr>)
   \<and> ob_val w0 20 = PyList [Some 10, Some 11, Some 12] \<and> ob_val w0 21 = PyInt (- 1)
   \<and> ob_val w0 12 = PyInt 7 \<and> ob_val w0 22 = PyInt 5
   \<and> eval_catch (run_loop (dispatch (H0 no_codes) L0 (eval_python (H0 no_codes) L0 0)) (Suc 0)
        (machine_of subscr_is [Some Py_None, Some 20, Some 22, None] w0))
     = Done (None, machine_of subscr_is [Some Py_None, Some 20, Some 22, None]
                     (w0\<lparr>err_occurred := Some PyExc_IndexError\<rparr>)\<lparr>pc := 12\<rparr>)"
proof -
  let ?H = "H0 no_codes"
  let ?ev = "eval_python ?H L0 0"
  let ?op = "RegOp 25 0 1 2 3 0"
  let ?items = "[Some 10, Some 11, Some (12::nat)]"
  let ?m1 = "machine_of subscr_is [Some Py_None, Some 20, Some 21, None] w0"
  let ?m2 = "machine_of subscr_is [Some Py_None, Some 20, Some 22, None] w0"
  let ?h1 = "w0\<lparr>err_occurred := Some PyExc_IndexError\<rparr>"
  have vals: "ob_val w0 20 = PyList ?items" "ob_val w0 21 = PyInt (- 1)"
    "ob_val w0 12 = PyInt 7" "ob_val w0 22 = PyInt 5"
    by (simp_all add: w0_def)
  have p1: "instructions (frame_code (frame ?m1)) (pc ?m1) = Some (I_RegOp ?op)"
      "code ?op = 25" "valid_reg ?m1 (reg_1 ?op)" "valid_reg ?m1 (reg_2 ?op)"
      "valid_reg ?m1 (reg_3 ?op)" "reg ?m1 (reg_1 ?op) = Some 20"
      "ob_val (heap ?m1) 20 = PyList ?items" "reg ?m1 (reg_2 ?op) = Some 21"
      "ob_val (heap ?m1) 21 = PyInt (- 1)"
    by (simp_all add: fixture_defs subscr_is_def valid_reg_def reg_def)
  have p2: "instructions (frame_code (frame ?m2)) (pc ?m2) = Some (I_RegOp ?op)"
      "code ?op = 25" "valid_reg ?m2 (reg_1 ?op)" "valid_reg ?m2 (reg_2 ?op)"
      "valid_reg ?m2 (reg_3 ?op)" "reg ?m2 (reg_1 ?op) = Some 20"
      "ob_val (heap ?m2) 20 = PyList ?items" "reg ?m2 (reg_2 ?op) = Some 22"
      "ob_val (heap ?m2) 22 = PyInt 5"
    by (simp_all add: fixture_defs subscr_is_def valid_reg_def reg_def)
  have t1: "dispatch ?H L0 ?ev ?m1
     = Done (set_reg (reg_3 ?op) (Some 12)
         (?m1\<lparr>heap := Py_XDECREF (reg ?m1 (reg_3 ?op)) (Py_INCREF 12 (heap ?m1)),
               pc := pc ?m1 + sizeof_RegOp L0\<rparr>))"
    using binary_subscr_list_index [OF p1, of 12 ?H L0 ?ev w0 0, THEN conjunct1]
    by simp
  have g: "PyObject_GetItem ?H (Some 20) (Some 22) (heap ?m2) = (None, ?h1)
             \<and> err_occurred ?h1 = Some PyExc_IndexError"
    by (simp add: fixture_defs)
  have t2: "eval_catch (run_loop (dispatch ?H L0 ?ev) (Suc 0) ?m2)
     = Done (None, ?m2\<lparr>heap := ?h1, pc := pc ?m2 + sizeof_RegOp L0\<rparr>)"
  proof -
    have nr: "\<not> (- int (length ?items) \<le> sint (5 :: long) \<and> sint (5 :: long) < int (length ?items))"
      by simp
    note T = binary_subscr_list_index [OF p2, of 12 ?H L0 ?ev ?h1 0, THEN conjunct2]
    from T nr have "PyObject_GetItem ?H (Some 20) (Some 22) (heap ?m2) = (None, ?h1)
             \<and> err_occurred ?h1 = Some PyExc_IndexError \<longrightarrow>
         dispatch ?H L0 ?ev ?m2
           = Throw_RException RException_pending (?m2\<lparr>heap := ?h1, pc := pc ?m2 + sizeof_RegOp L0\<rparr>)
         \<and> eval_catch (run_loop (dispatch ?H L0 ?ev) (Suc 0) ?m2)
           = Done (None, ?m2\<lparr>heap := ?h1, pc := pc ?m2 + sizeof_RegOp L0\<rparr>)"
      by (rule mp)
    from this g show ?thesis by blast
  qed
  show ?thesis
    using t1 t2 vals
    by (simp add: fixture_defs set_reg_def reg_def refcount_defs)
qed

section \<open>Where the code departs from the claims\<close>

lemma labels_BINARY_OR: "labels ! 66 = BinaryOp_h PyNumber_Or"
  by (simp add: labels_def)

lemma labels_BINARY_ADD: "labels ! 23 = BinaryOpWithSpecialization_h PyNumber_Add IntegerOps_add_f"
  by (simp add: labels_def)

text \<open>
  Claim C1 (the code departs from it).  The destructor releases the cached call-args tuple and
  nothing else: destroying a frame whose registers hold \<^verbatim>\<open>None\<close> and the integer \<open>3\<close> leaves the
  world as it was.  After the whole call \<^verbatim>\<open>f(3)\<close> the argument \<open>3\<close> (address 10) and the default
  \<open>7\<close> (address 12), each retained once when the frame was built, still have two references,
  as has the result, which the caller owns once; nothing was deallocated.
\<close>

theorem frame_destruction_leaks:
  "RegisterFrame_dtor (frame_of loop_is [Some Py_None, Some 10]) w0 = w0
   \<and> (case eval_python (H0 codes_f) L0 (Suc (Suc (Suc 0))) (Some 14) (Some 15) w0 0 of
         Done (Some r, h', c) \<Rightarrow>
           ob_val h' r = PyInt 10 \<and> ob_refcnt h' r = 2
           \<and> ob_refcnt w0 10 = 1 \<and> ob_refcnt h' 10 = 2
           \<and> ob_refcnt w0 12 = 1 \<and> ob_refcnt h' 12 = 2
           \<and> deallocated h' = []
       | _ \<Rightarrow> False)"
proof -
  have a: "RegisterFrame_dtor (frame_of loop_is [Some Py_None, Some 10]) w0 = w0"
    by (simp add: RegisterFrame_dtor_def frame_of_def Py_XDECREF_def)
  have b: "(case eval_python (H0 codes_f) L0 (Suc (Suc (Suc 0))) (Some 14) (Some 15) w0 0 of
         Done (Some r, h', c) \<Rightarrow>
           ob_val h' r = PyInt 10 \<and> ob_refcnt h' r = 2
           \<and> ob_refcnt w0 10 = 1 \<and> ob_refcnt h' 10 = 2
           \<and> ob_refcnt w0 12 = 1 \<and> ob_refcnt h' 12 = 2
           \<and> deallocated h' = []
       | _ \<Rightarrow> False)"
    by code_simp
  from a b show ?thesis by (rule conjI)
qed

text \<open>
  Claim C2 (the code departs from it).  \<^verbatim>\<open>BINARY_POWER 1, 2 -> 3\<close> on registers holding
  \<open>3\<close>, \<open>2\<close> and an old value (address 12) in register 3: the old value of register 3 keeps
  its count, while the operand of register 2 (address 24) loses its only reference and is
  deallocated, though register 2 still points to it.  \<^verbatim>\<open>BUILD_TUPLE 2\<close> with destination
  register 3 overwrites the old value (address 12) without releasing it.
\<close>

theorem binary_power_releases_reg_2:
  "(case BinaryPower (\<lambda>a b c h. case PyInt_FromLong 9 h of (r, h') \<Rightarrow> (Some r, h'))
           (RegOp 19 0 1 2 3 0) (machine_of loop_is [Some Py_None, Some 10, Some 24, Some 12] w0) of
      Done m' \<Rightarrow> registers (frame m') = [Some Py_None, Some 10, Some 24, Some 100]
                 \<and> ob_refcnt (heap m') 12 = ob_refcnt w0 12
                 \<and> ob_refcnt (heap m') 24 = ob_refcnt w0 24 - 1
                 \<and> deallocated (heap m') = [24]
    | _ \<Rightarrow> False)
   \<and> (case BuildTuple (VarRegOp 102 2 [1, 2, 3])
           (machine_of loop_is [Some Py_None, Some 10, Some 11, Some 12] w0) of
      Done m' \<Rightarrow> registers (frame m') = [Some Py_None, Some 10, Some 11, Some 100]
                 \<and> ob_val (heap m') 100 = PyTuple [Some 10, Some 11]
                 \<and> ob_refcnt (heap m') 12 = ob_refcnt w0 12
                 \<and> deallocated (heap m') = []
    | _ \<Rightarrow> False)"
  by code_simp

text \<open>
  Claim C3 (the code departs from it).  \<^verbatim>\<open>BINARY_OR 1, 2 -> 3\<close> whose generic operation fails
  with a \<^verbatim>\<open>TypeError\<close>: the round stores \<^verbatim>\<open>NULL\<close> in register 3 and finishes normally with
  \<^verbatim>\<open>pc\<close> at the next instruction, and \<^verbatim>\<open>eval\<close> returns the value of the following
  \<^verbatim>\<open>RETURN_VALUE 0\<close> (not \<^verbatim>\<open>NULL\<close>) with the error still pending.  \<^verbatim>\<open>UNARY_NEGATIVE\<close> and
  \<^verbatim>\<open>GET_ITER\<close> whose host call fails finish normally too, with \<^verbatim>\<open>NULL\<close> in the destination.
\<close>

theorem binary_op_null_continues:
  "dispatch (H0 no_codes) L0 (eval_python (H0 no_codes) L0 0)
       (machine_of or_is [Some Py_None, Some 10, Some 11, Some 12] w0)
     = Done ((machine_of or_is [Some Py_None, Some 10, Some 11, None]
               (Py_DECREF 12 (w0\<lparr>err_occurred := Some PyExc_TypeError\<rparr>)))\<lparr>pc := 12\<rparr>)
   \<and> (case eval (H0 no_codes) L0 (eval_python (H0 no_codes) L0 0) (Suc (Suc 0))
             (frame_of or_is [Some Py_None, Some 10, Some 11, Some 12]) w0 0 of
         Done (r, m') \<Rightarrow> r = Some Py_None \<and> registers (frame m') = [Some Py_None, Some 10, Some 11, None]
                          \<and> err_occurred (heap m') = Some PyExc_TypeError
       | _ \<Rightarrow> False)
   \<and> (case UnaryOp (UnaryFunction (H0 no_codes) PyNumber_Negative) (RegOp 11 0 1 2 0 0)
             (machine_of or_is [Some Py_None, Some 10, None] w0) of
         Done m' \<Rightarrow> registers (frame m') = [Some Py_None, Some 10, None]
                     \<and> err_occurred (heap m') = Some PyExc_TypeError
       | _ \<Rightarrow> False)
   \<and> (case GetIter (PyObject_GetIter (H0 no_codes)) (RegOp 68 0 1 2 0 0)
             (machine_of or_is [Some Py_None, Some 10, None] w0) of
         Done m' \<Rightarrow> registers (frame m') = [Some Py_None, Some 10, None]
                     \<and> err_occurred (heap m') = Some PyExc_TypeError
       | _ \<Rightarrow> False)"
  by (simp add: fixture_defs or_is_def wrapper_defs labels_BINARY_OR labels_RETURN_VALUE
        BinaryOp_def UnaryOp_def GetIter_def ReturnValue_def refcount_defs)

text \<open>
  A write of a register onto itself, for any machine: \<^verbatim>\<open>LoadFast\<close> keeps the object and its
  count, \<^verbatim>\<open>StoreFast\<close> deallocates an object whose only reference the register holds.
\<close>

lemma load_fast_alias_keeps_object:
  assumes "valid_reg m r" and "reg m r = Some a" and "ob_refcnt (heap m) a \<noteq> 0"
  shows "\<exists>m'. LoadFast (RegOp c g r r x y) m = Done m'
           \<and> deallocated (heap m') = deallocated (heap m)
           \<and> ob_refcnt (heap m') a = ob_refcnt (heap m) a
           \<and> registers (frame m') = registers (frame m)"
  using assms
  by (simp add: LoadFast_def refcount_defs reg_def valid_reg_def set_reg_def list_update_same_conv)

lemma store_fast_alias_frees_object:
  assumes "valid_reg m r" and "reg m r = Some a" and "ob_refcnt (heap m) a = 1"
  shows "\<exists>m'. StoreFast (RegOp c g r r x y) m = Done m'
           \<and> deallocated (heap m') = deallocated (heap m) @ [a]
           \<and> registers (frame m') = registers (frame m)"
  using assms
  by (simp add: StoreFast_def refcount_defs reg_def valid_reg_def set_reg_def list_update_same_conv)

text \<open>
  Claim C4 (the code departs from it).  \<^verbatim>\<open>STORE_FAST 1 -> 1\<close> on a register that holds the only
  reference to an object (address 10): the count reaches zero and the object is deallocated
  during the write, and the register points to it afterwards.  \<^verbatim>\<open>LOAD_FAST 1 -> 1\<close> on the
  same input deallocates nothing.
\<close>

theorem store_fast_alias_deallocates:
  "(case StoreFast (RegOp 125 0 1 1 0 0) (machine_of loop_is [Some Py_None, Some 10] w0) of
      Done m' \<Rightarrow> ob_refcnt w0 10 = 1 \<and> deallocated (heap m') = [10] \<and> registers (frame m') ! 1 = Some 10
    | _ \<Rightarrow> False)
   \<and> (case LoadFast (RegOp 124 0 1 1 0 0) (machine_of loop_is [Some Py_None, Some 10] w0) of
      Done m' \<Rightarrow> deallocated (heap m') = [] \<and> ob_refcnt (heap m') 10 = 1
                   \<and> registers (frame m') ! 1 = Some 10
    | _ \<Rightarrow> False)"
  by (simp add: StoreFast_def LoadFast_def fixture_defs refcount_defs reg_def valid_reg_def set_reg_def)

text \<open>
  For addition the fast path is exact: it returns the sum when the sum of the two signed
  values fits a \<^verbatim>\<open>long\<close> and \<^verbatim>\<open>NULL\<close> when it does not.
\<close>

lemma sint_xor_neg: "sint (x XOR y :: long) < 0 \<longleftrightarrow> (sint x < 0) \<noteq> (sint y < 0)"
  by (simp add: bit_last_iff [symmetric] bit_xor_iff)

lemma sint_long_range: "- 9223372036854775808 \<le> sint (x :: long) \<and> sint x < 9223372036854775808"
  using sint_ge [of x] sint_lt [of x] by simp

lemma mod_window:
  fixes s :: int
  assumes "- 9223372036854775808 \<le> s" and "s < 27670116110564327424"
  shows "s mod 18446744073709551616
           = (if s < 0 then s + 18446744073709551616
              else if s < 18446744073709551616 then s else s - 18446744073709551616)"
proof -
  have a: "s < 0 \<Longrightarrow> s mod 18446744073709551616 = s + 18446744073709551616"
    using assms mod_pos_pos_trivial [of "s + 18446744073709551616" 18446744073709551616]
    by simp
  have b: "0 \<le> s \<Longrightarrow> s < 18446744073709551616 \<Longrightarrow> s mod 18446744073709551616 = s"
    by simp
  have c: "18446744073709551616 \<le> s \<Longrightarrow> s mod 18446744073709551616 = s - 18446744073709551616"
    using assms mod_pos_pos_trivial [of "s - 18446744073709551616" 18446744073709551616]
    by simp
  show ?thesis using a b c by auto
qed

lemma sint_add_long:
  "sint (a + b :: long)
     = (if 9223372036854775808 \<le> sint a + sint b then sint a + sint b - 18446744073709551616
        else if sint a + sint b < - 9223372036854775808 then sint a + sint b + 18446744073709551616
        else sint a + sint b)"
proof -
  have "sint (a + b) = (sint a + sint b + 9223372036854775808) mod 18446744073709551616 - 9223372036854775808"
    by (simp add: sint_word_add signed_take_bit_eq_take_bit_shift take_bit_eq_mod)
  moreover have "- 9223372036854775808 \<le> sint a + sint b + 9223372036854775808"
    and "sint a + sint b + 9223372036854775808 < 27670116110564327424"
    using sint_long_range [of a] sint_long_range [of b] by simp_all
  ultimately show ?thesis
    by (simp add: mod_window)
qed

lemma integer_op_add_exact:
  "integer_op c_add a b
     = Inr (if - 9223372036854775808 \<le> sint a + sint b \<and> sint a + sint b < 9223372036854775808
            then Some (a + b) else None)"
  using sint_long_range [of a] sint_long_range [of b]
  by (simp add: integer_op_def c_add_def sint_xor_neg sint_add_long) arith

lemma integer_op_add_value:
  "integer_op c_add a b = Inr (Some i) \<Longrightarrow> sint i = sint a + sint b"
  using sint_long_range [of a] sint_long_range [of b]
  by (auto simp: integer_op_add_exact sint_add_long split: if_splits)

text \<open>
  Claim C6 (the code departs from it).  \<^verbatim>\<open>IntegerOps::div\<close> on \<open>-7\<close> and \<open>2\<close> returns a new
  integer \<open>9223372036854775804\<close>, where the host's division of integers gives \<open>-4\<close>; the
  remainder of \<open>-7\<close> by \<open>3\<close> is \<open>0\<close> on the fast path and \<open>2\<close> in the host; \<open>2^32 * 2^32\<close> and
  \<open>0 - (-2^63)\<close> do not fit a \<^verbatim>\<open>long\<close> and the fast path returns \<open>0\<close> and \<open>-2^63\<close> for
  them; \<open>1 - 2\<close> fits and the fast path returns \<^verbatim>\<open>NULL\<close>.  The host's division and
  remainder of integers round towards minus infinity, as \<open>div\<close> and \<open>mod\<close> on \<open>int\<close> do.
\<close>

theorem integer_fast_path_wrong:
  "(case IntegerOps_div (Some 23) (Some 24) w0 of
      Inr (Some r, h') \<Rightarrow> ob_val h' r = PyInt 9223372036854775804
    | _ \<Rightarrow> False)
   \<and> (- 7 :: int) div 2 = - 4
   \<and> integer_op c_mod (- 7) 3 = Inr (Some 0) \<and> (- 7 :: int) mod 3 = 2
   \<and> integer_op c_mul 4294967296 4294967296 = Inr (Some 0)
   \<and> integer_op c_sub 0 (- 9223372036854775808) = Inr (Some (- 9223372036854775808))
   \<and> integer_op c_sub 1 2 = Inr None"
  by (simp add: IntegerOps_div_def IntegerOps_OP_def integer_op_def c_div_def c_mod_def c_mul_def
        c_sub_def fixture_defs PyInt_CheckExact_def PyInt_AS_LONG_def PyInt_FromLong_def alloc_def)

text \<open>
  Claim C7 (the code departs from it).  \<^verbatim>\<open>CALL_FUNCTION\<close> with \<open>na = 2\<close> and \<open>nk = 1\<close>: the
  keyword loop runs from \<open>i = 2\<close> while \<open>i < 2\<close>, so the keyword dictionary stays empty.  The
  registers hold the positionals \<open>3\<close> and \<open>4\<close>, a keyword name (address 30) with its value
  \<open>7\<close>, and the callee \<^verbatim>\<open>f\<close>.  The host call here hands its keyword dictionary back as the
  result: the destination register receives an empty dictionary; the positional tuple is
  \<^verbatim>\<open>(3, 4)\<close>.
\<close>

theorem kwdict_loop_bound:
  "(case build_kwdict 2 1 [1, 2, 3, 4, 5, 6]
           [Some Py_None, Some 10, Some 11, Some 30, Some 12, Some 14, None] w0 of
      Inr (Some d, h') \<Rightarrow> ob_val h' d = PyDict []
    | _ \<Rightarrow> False)
   \<and> (case CallFunction (H0 no_codes) (eval_python (H0 no_codes) L0 0)
            (VarRegOp 131 258 [1, 2, 3, 4, 5, 6])
            (machine_of loop_is [Some Py_None, Some 10, Some 11, Some 30, Some 12, Some 14, None] w0) of
      Done m' \<Rightarrow> registers (frame m') ! 6 = Some 101 \<and> ob_val (heap m') 101 = PyDict []
                 \<and> ob_val (heap m') 100 = PyTuple [Some 10, Some 11]
    | _ \<Rightarrow> False)"
  by code_simp


section \<open>The operation counter\<close>

lemma labels_JUMP_ABSOLUTE: "labels ! 113 = JumpAbsolute_h"
  by (simp add: labels_def)

lemma run_loop_stuck: "stp m = Done m \<Longrightarrow> run_loop stp n m = OutOfFuel"
  by (induction n) simp_all

lemma jump_to_self:
  assumes "instructions (frame_code (frame m)) (pc m) = Some (I_BranchOp op)"
    and "bcode op = 113" and "label op = pc m"
  shows "dispatch H L ev m = Done m"
  using assms
  by (simp add: dispatch_def length_labels labels_JUMP_ABSOLUTE exec_handler_def Op_BranchOp_def
        JumpAbsolute_def)

lemma same_count_regop_handlers:
  "same_count (total_count m) (BinaryOpWithSpecialization F G op m)"
  "same_count (total_count m) (BinaryOp F op m)"
  "same_count (total_count m) (UnaryOp U op m)"
  "same_count (total_count m) (UnaryNot T op m)"
  "same_count (total_count m) (BinaryPower P op m)"
  "same_count (total_count m) (InplacePower P op m)"
  "same_count (total_count m) (BinarySubscr F op m)"
  "same_count (total_count m) (IncRef op m)"
  "same_count (total_count m) (DecRef op m)"
  "same_count (total_count m) (LoadFast op m)"
  "same_count (total_count m) (StoreFast op m)"
  "same_count (total_count m) (GetIter U op m)"
  "same_count (total_count m) (ReturnValue op m)"
  by (simp_all add: same_count_def BinaryOpWithSpecialization_def BinaryOp_def UnaryOp_def
        UnaryNot_def BinaryPower_def InplacePower_def BinarySubscr_def IncRef_def DecRef_def
        LoadFast_def StoreFast_def GetIter_def ReturnValue_def set_reg_def Let_def
        split: prod.split sum.split option.split)

lemma same_count_branch_handlers:
  "same_count (total_count m) (ForIter L U bop m)"
  "same_count (total_count m) (JumpIfFalseOrPop L T bop m)"
  "same_count (total_count m) (JumpIfTrueOrPop L T bop m)"
  "same_count (total_count m) (JumpAbsolute bop m)"
  by (simp_all add: same_count_def ForIter_def JumpIfFalseOrPop_def JumpIfTrueOrPop_def
        JumpAbsolute_def set_reg_def split: prod.split option.split)

lemma same_count_builds:
  "same_count (total_count m) (BuildTuple vop m)"
  "same_count (total_count m) (BuildList vop m)"
  by (simp_all add: same_count_def BuildTuple_def BuildList_def set_reg_def
        split: prod.split sum.split)

lemma ensure_call_args_count:
  "ensure_call_args na m = (t, m1) \<Longrightarrow> total_count m1 = total_count m"
  by (auto simp: ensure_call_args_def split: option.splits prod.splits if_splits)

lemma call_target_count:
  assumes "ev_same_count ev"
  shows "case call_target H ev fn args kwdict m of
           Done (r, m2) \<Rightarrow> total_count m2 = total_count m
         | Throw_PyObject p m2 \<Rightarrow> total_count m2 = total_count m
         | Throw_RException e m2 \<Rightarrow> total_count m2 = total_count m
         | _ \<Rightarrow> True"
proof (cases fn)
  case None
  then show ?thesis by (simp add: call_target_def)
next
  case (Some f)
  from assms have "case ev fn (Some args) (heap m) (total_count m) of
          Done (r, h', c') \<Rightarrow> c' = total_count m
        | Throw_PyObject p (h', c') \<Rightarrow> c' = total_count m
        | Throw_RException e (h', c') \<Rightarrow> c' = total_count m
        | _ \<Rightarrow> True"
    unfolding ev_same_count_def by (auto split: res.splits)
  with Some show ?thesis
    by (auto simp: call_target_def split: res.splits prod.splits)
qed

lemma call_target_count_Done:
  "ev_same_count ev \<Longrightarrow> call_target H ev fn args kwdict m = Done (r, m2)
     \<Longrightarrow> total_count m2 = total_count m"
  using call_target_count [where ev = ev and H = H and fn = fn and args = args and kwdict = kwdict and m = m] by simp

lemma call_target_count_Throw_PyObject:
  "ev_same_count ev \<Longrightarrow> call_target H ev fn args kwdict m = Throw_PyObject p m2
     \<Longrightarrow> total_count m2 = total_count m"
  using call_target_count [where ev = ev and H = H and fn = fn and args = args and kwdict = kwdict and m = m] by simp

lemma call_target_count_Throw_RException:
  "ev_same_count ev \<Longrightarrow> call_target H ev fn args kwdict m = Throw_RException e m2
     \<Longrightarrow> total_count m2 = total_count m"
  using call_target_count [where ev = ev and H = H and fn = fn and args = args and kwdict = kwdict and m = m] by simp

lemma same_count_CallFunction:
  assumes "ev_same_count ev"
  shows "same_count (total_count m) (CallFunction H ev vop m)"
  unfolding CallFunction_def Let_def same_count_def
  by (auto simp: set_reg_def split: prod.splits sum.splits res.splits option.splits if_splits
        dest!: ensure_call_args_count call_target_count_Done [OF assms]
          call_target_count_Throw_PyObject [OF assms]
          call_target_count_Throw_RException [OF assms])

lemma same_count_Op_RegOp:
  "(\<And>op m'. same_count (total_count m') (k op m'))
     \<Longrightarrow> same_count (total_count m) (Op_RegOp L ins m k)"
proof (cases ins)
  case (I_RegOp op)
  assume "\<And>op m'. same_count (total_count m') (k op m')"
  from this [of "m\<lparr>pc := pc m + sizeof_RegOp L\<rparr>" op] I_RegOp show ?thesis
    by (simp add: Op_RegOp_def)
qed (simp_all add: Op_RegOp_def same_count_def)

lemma same_count_Op_VarRegOp:
  "(\<And>op m'. same_count (total_count m') (k op m'))
     \<Longrightarrow> same_count (total_count m) (Op_VarRegOp L ins m k)"
proof (cases ins)
  case (I_VarRegOp op)
  assume "\<And>op m'. same_count (total_count m') (k op m')"
  from this [of "m\<lparr>pc := pc m + size_VarRegOp L op\<rparr>" op] I_VarRegOp show ?thesis
    by (simp add: Op_VarRegOp_def)
qed (simp_all add: Op_VarRegOp_def same_count_def)

lemma same_count_Op_BranchOp:
  "(\<And>op m'. same_count (total_count m') (k op m'))
     \<Longrightarrow> same_count (total_count m) (Op_BranchOp ins m k)"
  by (cases ins) (simp_all add: Op_BranchOp_def same_count_def)

lemma same_count_exec_handler:
  assumes "ev_same_count ev"
  shows "same_count (total_count m) (exec_handler H L ev lbl ins m)"
proof (cases lbl)
  case (Other_h name)
  then show ?thesis by (simp add: exec_handler_def same_count_def)
next
  case (BAD_OP name)
  then show ?thesis by (simp add: exec_handler_def same_count_def)
next
  case BADCODE
  then show ?thesis by (simp add: exec_handler_def same_count_def)
qed (simp_all add: exec_handler_def same_count_Op_RegOp same_count_Op_VarRegOp
       same_count_Op_BranchOp same_count_regop_handlers same_count_branch_handlers
       same_count_builds same_count_CallFunction [OF assms])

lemma same_count_dispatch:
  assumes "ev_same_count ev"
  shows "same_count (total_count m) (dispatch H L ev m)"
  using same_count_exec_handler [OF assms]
  by (auto simp: dispatch_def same_count_def split: option.splits)

lemma same_count_run_loop:
  assumes "ev_same_count ev"
  shows "same_count (total_count m) (run_loop (dispatch H L ev) n m)"
proof (induction n arbitrary: m)
  case 0
  show ?case by (simp add: same_count_def)
next
  case (Suc n)
  have d: "same_count (total_count m) (dispatch H L ev m)"
    using assms by (rule same_count_dispatch)
  show ?case
  proof (cases "dispatch H L ev m")
    case (Done m')
    with d have "total_count m' = total_count m" by (simp add: same_count_def)
    with Suc.IH [of m'] Done show ?thesis by simp
  qed (use d in simp_all)
qed

lemma eval_count:
  assumes "ev_same_count ev"
  shows "case eval H L ev n fr h c of
           Done (r, m) \<Rightarrow> total_count m = c
         | Throw_PyObject p m \<Rightarrow> total_count m = c
         | Throw_RException e m \<Rightarrow> total_count m = c
         | _ \<Rightarrow> True"
  using same_count_run_loop [OF assms,
      where m = "\<lparr>heap = h, total_count = c, frame = fr, pc = 0\<rparr>" and H = H and L = L and n = n]
  by (auto simp: eval_def eval_catch_def same_count_def split: res.splits)

lemma ev_same_count_body:
  assumes "ev_same_count ev"
  shows "ev_same_count (eval_python_body H L ev n)"
  unfolding ev_same_count_def
proof (intro allI)
  fix fn a h c
  show "case eval_python_body H L ev n fn a h c of
          Done (r, h', c') \<Rightarrow> c' = c
        | Throw_PyObject p (h', c') \<Rightarrow> c' = c
        | Throw_RException e (h', c') \<Rightarrow> c' = c
        | _ \<Rightarrow> True"
  proof (cases "frame_from_python H fn a h")
    case (Done x)
    obtain fo h1 where x: "x = (fo, h1)" by (cases x)
    show ?thesis
    proof (cases fo)
      case None
      with Done x show ?thesis by (simp add: eval_python_body_def)
    next
      case (Some fr)
      from eval_count [OF assms, where H = H and L = L and n = n and c = c and fr = fr and h = h1]
      show ?thesis
        using Done x Some
        by (cases "eval H L ev n fr h1 c") (auto simp: eval_python_body_def)
    qed
  qed (simp_all add: eval_python_body_def)
qed

lemma ev_same_count_eval_python: "ev_same_count (eval_python H L n)"
proof (induction n)
  case 0
  show ?case by (simp add: ev_same_count_def)
next
  case (Suc n)
  then show ?case by (simp add: ev_same_count_body)
qed

text \<open>
  Claim C5, as amended.  \<^verbatim>\<open>collect_info\<close> adds one to the counter and throws the
  \<^verbatim>\<open>SystemError\<close> "Execution entered infinite loop." once the new count exceeds \<open>10^9\<close>.
  No dispatch round calls it: a call of \<^verbatim>\<open>eval_python\<close> that returns hands the counter back
  unchanged, and a frame whose first instruction is a \<^verbatim>\<open>JUMP_ABSOLUTE\<close> to itself
  (\<^verbatim>\<open>while True: pass\<close>) is still dispatching after any number \<open>k\<close> of rounds.
\<close>

theorem op_ceiling_not_enforced:
  "collect_info opc m
     = (if total_count m + 1 > 1000000000
        then Throw_RException
               (RException_new PyExc_SystemError ''Execution entered infinite loop.'')
               (m\<lparr>total_count := total_count m + 1\<rparr>)
        else Done (m\<lparr>total_count := total_count m + 1\<rparr>))
   \<and> (eval_python H L n func args h c = Done (r, h', c') \<longrightarrow> c' = c)
   \<and> (instructions (frame_code fr) 0 = Some (I_BranchOp (BranchOp 113 r1 r2 0))
        \<and> co_cellvars (frame_code fr) = 0
        \<longrightarrow> eval H L ev k fr h c = OutOfFuel)"
proof (intro conjI impI)
  show "collect_info opc m
     = (if total_count m + 1 > 1000000000
        then Throw_RException
               (RException_new PyExc_SystemError ''Execution entered infinite loop.'')
               (m\<lparr>total_count := total_count m + 1\<rparr>)
        else Done (m\<lparr>total_count := total_count m + 1\<rparr>))"
    by (simp add: collect_info_def Let_def)
next
  assume "eval_python H L n func args h c = Done (r, h', c')"
  moreover have "case eval_python H L n func args h c of
          Done (r, h', c') \<Rightarrow> c' = c
        | Throw_PyObject p (h', c') \<Rightarrow> c' = c
        | Throw_RException e (h', c') \<Rightarrow> c' = c
        | _ \<Rightarrow> True"
    using ev_same_count_eval_python [of H L n] unfolding ev_same_count_def by blast
  ultimately show "c' = c" by simp
next
  assume a: "instructions (frame_code fr) 0 = Some (I_BranchOp (BranchOp 113 r1 r2 0))
        \<and> co_cellvars (frame_code fr) = 0"
  let ?m = "\<lparr>heap = h, total_count = c, frame = fr, pc = 0\<rparr>"
  have "dispatch H L ev ?m = Done ?m"
    using a by (intro jump_to_self [where op = "BranchOp 113 r1 r2 0"]) simp_all
  then have "run_loop (dispatch H L ev) k ?m = OutOfFuel" by (rule run_loop_stuck)
  with a show "eval H L ev k fr h c = OutOfFuel"
    by (simp add: eval_def eval_catch_def)
qed

text \<open>
  The theorem at a counter of \<open>10^9\<close> (the next \<^verbatim>\<open>collect_info\<close> throws), at the call
  \<^verbatim>\<open>f(3)\<close> started with the counter at 5 (it comes back as 5), and at the self-jump.
\<close>

theorem op_ceiling_not_enforced_witness:
  "collect_info 113 ((machine_of loop_is [Some Py_None] w0)\<lparr>total_count := 1000000000\<rparr>)
     = Throw_RException (RException_new PyExc_SystemError ''Execution entered infinite loop.'')
         ((machine_of loop_is [Some Py_None] w0)\<lparr>total_count := 1000000001\<rparr>)
   \<and> (\<exists>r h'. eval_python (H0 codes_f) L0 (Suc (Suc (Suc 0))) (Some 14) (Some 15) w0 5
                 = Done (r, h', 5))
   \<and> eval (H0 no_codes) L0 (eval_python (H0 no_codes) L0 0) 7
        (frame_of loop_is [Some Py_None]) w0 0 = OutOfFuel"
proof -
  let ?m = "(machine_of loop_is [Some Py_None] w0)\<lparr>total_count := 1000000000\<rparr>"
  have "case eval_python (H0 codes_f) L0 (Suc (Suc (Suc 0))) (Some 14) (Some 15) w0 5 of
          Done x \<Rightarrow> True | _ \<Rightarrow> False"
    by code_simp
  then obtain r h' c' where
    d: "eval_python (H0 codes_f) L0 (Suc (Suc (Suc 0))) (Some 14) (Some 15) w0 5 = Done (r, h', c')"
    by (cases "eval_python (H0 codes_f) L0 (Suc (Suc (Suc 0))) (Some 14) (Some 15) w0 5") auto
  note T1 = op_ceiling_not_enforced [where opc = 113 and m = ?m and H = "H0 codes_f" and L = L0
      and n = "Suc (Suc (Suc 0))" and func = "Some 14" and args = "Some 15" and h = w0 and c = 5
      and r = r and h' = h' and c' = c']
  note T2 = op_ceiling_not_enforced [where H = "H0 no_codes" and L = L0
      and fr = "frame_of loop_is [Some Py_None]" and ?r1.0 = 0 and ?r2.0 = 0
      and ev = "eval_python (H0 no_codes) L0 0" and k = 7 and h = w0 and c = 0]
  have a: "collect_info 113 ?m
     = Throw_RException (RException_new PyExc_SystemError ''Execution entered infinite loop.'')
         ((machine_of loop_is [Some Py_None] w0)\<lparr>total_count := 1000000001\<rparr>)"
    using T1 [THEN conjunct1] by (simp add: machine_of_def)
  have b: "c' = 5"
    using T1 [THEN conjunct2, THEN conjunct1] d by simp
  have c: "eval (H0 no_codes) L0 (eval_python (H0 no_codes) L0 0) 7
        (frame_of loop_is [Some Py_None]) w0 0 = OutOfFuel"
    using T2 [THEN conjunct2, THEN conjunct2]
    by (simp add: frame_of_def code_of_def loop_is_def)
  from a b c d show ?thesis by blast
qed

text \<open>
  Claim C5 as stated fails: \<^verbatim>\<open>eval\<close> on the self-jump is still running after
  \<open>10^9 + 1\<close> dispatch rounds; each round leaves the machine as it was, with the counter at 0.
\<close>

theorem op_ceiling_counterexample:
  "eval (H0 no_codes) L0 (eval_python (H0 no_codes) L0 0) 1000000001
      (frame_of loop_is [Some Py_None]) w0 0 = OutOfFuel
   \<and> dispatch (H0 no_codes) L0 (eval_python (H0 no_codes) L0 0)
        (machine_of loop_is [Some Py_None] w0) = Done (machine_of loop_is [Some Py_None] w0)
   \<and> total_count (machine_of loop_is [Some Py_None] w0) = 0"
proof -
  let ?m = "machine_of loop_is [Some Py_None] w0"
  let ?d = "dispatch (H0 no_codes) L0 (eval_python (H0 no_codes) L0 0)"
  have d: "?d ?m = Done ?m"
    by (rule jump_to_self [where op = "BranchOp 113 0 0 0"])
       (simp_all add: machine_of_def frame_of_def code_of_def loop_is_def)
  then have "run_loop ?d 1000000001 ?m = OutOfFuel" by (rule run_loop_stuck)
  then have "eval (H0 no_codes) L0 (eval_python (H0 no_codes) L0 0) 1000000001
      (frame_of loop_is [Some Py_None]) w0 0 = OutOfFuel"
    by (simp add: eval_def eval_catch_def machine_of_def frame_of_def code_of_def)
  with d show ?thesis by (simp add: machine_of_def)
qed

section \<open>Frame construction\<close>

lemma ob_val_Py_INCREF [simp]: "ob_val (Py_INCREF a h) = ob_val h"
  by (simp add: Py_INCREF_def)

lemma ob_val_Py_XINCREF [simp]: "ob_val (Py_XINCREF p h) = ob_val h"
  by (simp add: Py_XINCREF_def split: option.split)

lemma tuple_items_ob_val: "ob_val h' = ob_val h \<Longrightarrow> tuple_items h' p = tuple_items h p"
  by (cases p) (simp_all add: tuple_items_def)

lemma GetDefaults_ob_val:
  "ob_val h' = ob_val h \<Longrightarrow> PyFunction_GetDefaults h' p = PyFunction_GetDefaults h p"
  by (cases p) (simp_all add: PyFunction_GetDefaults_def)

lemma copy_consts_ok:
  assumes "None \<notin> set cs" and "i + length cs \<le> length rs"
  shows "\<exists>rs' h'. copy_consts cs i rs h = Inr (rs', h') \<and> length rs' = length rs
           \<and> ob_val h' = ob_val h
           \<and> (\<forall>j < length cs. rs' ! (i + j) = cs ! j)
           \<and> (\<forall>p < length rs. p < i \<or> i + length cs \<le> p \<longrightarrow> rs' ! p = rs ! p)"
  using assms
proof (induction cs arbitrary: i rs h)
  case Nil
  then show ?case by simp
next
  case (Cons c cs)
  from Cons.prems obtain a where c: "c = Some a" by (cases c) auto
  from Cons.prems have "None \<notin> set cs" and "Suc i + length cs \<le> length (rs[i := c])"
    by auto
  from Cons.IH [OF this, of "Py_INCREF a h"]
  obtain rs' h' where r: "copy_consts cs (Suc i) (rs[i := c]) (Py_INCREF a h) = Inr (rs', h')"
      "length rs' = length rs" "ob_val h' = ob_val h"
      "\<forall>j < length cs. rs' ! (Suc i + j) = cs ! j"
      "\<forall>p < length rs. p < Suc i \<or> Suc i + length cs \<le> p \<longrightarrow> rs' ! p = rs[i := c] ! p"
    by auto
  have i: "i < length rs" using Cons.prems by simp
  have "\<forall>j < length (c # cs). rs' ! (i + j) = (c # cs) ! j"
  proof (intro allI impI)
    fix j assume "j < length (c # cs)"
    then show "rs' ! (i + j) = (c # cs) ! j"
      using r(4) r(5) i by (cases j) auto
  qed
  moreover have "\<forall>p < length rs. p < i \<or> i + length (c # cs) \<le> p \<longrightarrow> rs' ! p = rs ! p"
    using r(5) by auto
  ultimately show ?case
    using r(1,2,3) c i by simp
qed

lemma fill_args_ok:
  assumes "offset + k \<le> length rs" and "i + k \<le> length args + length defs"
  shows "\<exists>rs' h'. fill_args k i offset args defs rs h = Inr (rs', h') \<and> length rs' = length rs
           \<and> (\<forall>j < k. rs' ! (offset + j)
                 = (if i + j < length args then args ! (i + j) else defs ! (i + j - length args)))
           \<and> (\<forall>p < length rs. p < offset \<or> offset + k \<le> p \<longrightarrow> rs' ! p = rs ! p)"
  using assms
proof (induction k arbitrary: i offset rs h)
  case 0
  then show ?case by simp
next
  case (Suc k)
  let ?v = "if i < length args then args ! i else defs ! (i - length args)"
  have o: "offset < length rs" using Suc.prems by simp
  have step: "fill_args (Suc k) i offset args defs rs h
                = fill_args k (Suc i) (Suc offset) args defs (rs[offset := ?v]) (Py_XINCREF ?v h)"
    using o Suc.prems by auto
  have "Suc offset + k \<le> length (rs[offset := ?v])" and "Suc i + k \<le> length args + length defs"
    using Suc.prems by auto
  from Suc.IH [OF this, of "Py_XINCREF ?v h"]
  obtain rs' h' where r:
      "fill_args k (Suc i) (Suc offset) args defs (rs[offset := ?v]) (Py_XINCREF ?v h) = Inr (rs', h')"
      "length rs' = length rs"
      "\<forall>j < k. rs' ! (Suc offset + j)
          = (if Suc i + j < length args then args ! (Suc i + j) else defs ! (Suc i + j - length args))"
      "\<forall>p < length rs. p < Suc offset \<or> Suc offset + k \<le> p \<longrightarrow> rs' ! p = rs[offset := ?v] ! p"
    by auto
  have "\<forall>j < Suc k. rs' ! (offset + j)
          = (if i + j < length args then args ! (i + j) else defs ! (i + j - length args))"
  proof (intro allI impI)
    fix j assume "j < Suc k"
    then show "rs' ! (offset + j)
          = (if i + j < length args then args ! (i + j) else defs ! (i + j - length args))"
      using r(3) r(4) o by (cases j) auto
  qed
  moreover have "\<forall>p < length rs. p < offset \<or> offset + Suc k \<le> p \<longrightarrow> rs' ! p = rs ! p"
    using r(4) by auto
  ultimately show ?case
    using step r(1,2) by simp
qed


lemma PyMethod_ob_val:
  "ob_val h' = ob_val h \<Longrightarrow> PyMethod_Check h' a = PyMethod_Check h a"
  by (simp add: PyMethod_Check_def)

lemma bind_self_ok:
  assumes "PyMethod_Check h fn \<longrightarrow> PyMethod_Self h fn \<noteq> None"
    and "offset + (if PyMethod_Check h fn then 1 else 0) \<le> length rs"
  shows "\<exists>rs' h'. bind_self fn offset needed rs h
             = Inr (offset + (if PyMethod_Check h fn then 1 else 0),
                    needed - (if PyMethod_Check h fn then 1 else 0), rs', h')
           \<and> length rs' = length rs \<and> ob_val h' = ob_val h
           \<and> (\<forall>p < length rs. p < offset \<or> offset + (if PyMethod_Check h fn then 1 else 0) \<le> p
                  \<longrightarrow> rs' ! p = rs ! p)"
  using assms by (auto simp: bind_self_def)

lemma RegisterFrame_ctor_binds:
  assumes obj: "obj = Some fn"
    and consts_ok: "None \<notin> set (co_consts func)"
    and self_ok: "PyMethod_Check h fn \<longrightarrow> PyMethod_Self h fn \<noteq> None"
    and A: "A = tuple_items h args"
    and D: "D = tuple_items h (PyFunction_GetDefaults h (code_function func))"
    and K: "K = length (co_consts func) + (if PyMethod_Check h fn then 1 else 0)"
    and needed: "needed = co_argcount func - (if PyMethod_Check h fn then 1 else 0)"
    and room: "K + nat needed \<le> num_registers func"
  shows "(int (length A) + int (length D) < needed \<longrightarrow>
           (\<exists>msg h'. RegisterFrame_ctor func obj args kw h
                        = Throw_RException (RException_new PyExc_TypeError msg) h'))
       \<and> (\<not> int (length A) + int (length D) < needed \<longrightarrow>
           (\<exists>fr h'. RegisterFrame_ctor func obj args kw h = Done (fr, h')
              \<and> length (registers fr) = num_registers func
              \<and> (\<forall>i < nat needed. registers fr ! (K + i)
                     = (if i < length A then A ! i else D ! (i - length A)))
              \<and> (\<forall>p < num_registers func. K + nat needed \<le> p \<longrightarrow> registers fr ! p = None)
              \<and> (\<forall>j < length (co_consts func). registers fr ! j = co_consts func ! j)))"
proof -
  let ?N = "num_registers func"
  let ?R = "replicate ?N (None :: ptr)"
  let ?kc = "length (co_consts func)"
  let ?s = "if PyMethod_Check h fn then 1 else (0::nat)"
  have Ks: "K = ?kc + ?s" by (rule K)
  have kc: "0 + ?kc \<le> length ?R" using room Ks by simp
  from copy_consts_ok [OF consts_ok kc, of h]
  obtain rs1 h1 where raw1: "copy_consts (co_consts func) 0 ?R h = Inr (rs1, h1)"
      "length rs1 = length ?R" "ob_val h1 = ob_val h"
      "\<forall>j < ?kc. rs1 ! (0 + j) = co_consts func ! j"
      "\<forall>p < length ?R. p < 0 \<or> 0 + ?kc \<le> p \<longrightarrow> rs1 ! p = ?R ! p"
    by blast
  have l1: "length rs1 = ?N" using raw1(2) by simp
  have lo1: "\<And>j. j < ?kc \<Longrightarrow> rs1 ! j = co_consts func ! j" using raw1(4) by simp
  have hi1: "\<And>p. p < ?N \<Longrightarrow> ?kc \<le> p \<Longrightarrow> rs1 ! p = None" using raw1(5) by simp
  have m1: "PyMethod_Check h1 fn = PyMethod_Check h fn"
    using raw1(3) by (rule PyMethod_ob_val)
  have s1: "PyMethod_Self h1 fn = PyMethod_Self h fn"
    using raw1(3) by (simp add: PyMethod_Self_def)
  have b0: "PyMethod_Check h1 fn \<longrightarrow> PyMethod_Self h1 fn \<noteq> None"
    using self_ok m1 s1 by simp
  have b1: "?kc + (if PyMethod_Check h1 fn then 1 else 0) \<le> length rs1"
    using room Ks l1 m1 by simp
  from bind_self_ok [OF b0 b1, of "co_argcount func"]
  obtain rs2 h2 where raw2: "bind_self fn ?kc (co_argcount func) rs1 h1
        = Inr (?kc + (if PyMethod_Check h1 fn then 1 else 0),
               co_argcount func - (if PyMethod_Check h1 fn then 1 else 0), rs2, h2)"
      "length rs2 = length rs1" "ob_val h2 = ob_val h1"
      "\<forall>p < length rs1. p < ?kc \<or> ?kc + (if PyMethod_Check h1 fn then 1 else 0) \<le> p
          \<longrightarrow> rs2 ! p = rs1 ! p"
    by blast
  have bs: "bind_self fn ?kc (co_argcount func) rs1 h1 = Inr (K, needed, rs2, h2)"
    using raw2(1) m1 Ks needed by simp
  have l2: "length rs2 = ?N" using raw2(2) l1 by simp
  have v2: "ob_val h2 = ob_val h" using raw2(3) raw1(3) by simp
  have Ks1: "K = ?kc + (if PyMethod_Check h1 fn then 1 else 0)"
    using Ks m1 by simp
  have keep2: "\<And>p. p < ?N \<Longrightarrow> p < ?kc \<or> K \<le> p \<Longrightarrow> rs2 ! p = rs1 ! p"
  proof -
    fix p assume pN: "p < ?N" and pK: "p < ?kc \<or> K \<le> p"
    have p1: "p < length rs1" using pN l1 by simp
    have p2: "p < ?kc \<or> ?kc + (if PyMethod_Check h1 fn then 1 else 0) \<le> p"
      using pK unfolding Ks1 .
    from raw2(4) p1 p2 show "rs2 ! p = rs1 ! p" by blast
  qed
  have A2: "tuple_items h2 args = A"
    unfolding A using v2 by (rule tuple_items_ob_val)
  have G2: "PyFunction_GetDefaults h2 (code_function func)
              = PyFunction_GetDefaults h (code_function func)"
    using v2 by (rule GetDefaults_ob_val)
  have D2: "tuple_items h2 (PyFunction_GetDefaults h2 (code_function func)) = D"
    unfolding D G2 using v2 by (rule tuple_items_ob_val)
  have ctor0: "RegisterFrame_ctor func obj args kw h
     = (if int (length A) + int (length D) < needed
        then Throw_RException (RException_new PyExc_TypeError ''Wrong number of arguments'') h2
        else (case fill_args (nat needed) 0 K A D rs2 h2 of
                Inl f \<Rightarrow> Crash f
              | Inr (rs3, h3) \<Rightarrow>
                  Done (\<lparr>frame_code = func, frame_kw = kw, call_args = None, registers = rs3\<rparr>, h3)))"
    unfolding RegisterFrame_ctor_def obj by (simp add: raw1(1) bs A2 D2 Let_def)
  show ?thesis
  proof (intro conjI impI)
    assume "int (length A) + int (length D) < needed"
    then show "\<exists>msg h'. RegisterFrame_ctor func obj args kw h
                        = Throw_RException (RException_new PyExc_TypeError msg) h'"
      using ctor0 by simp
  next
    assume enough: "\<not> int (length A) + int (length D) < needed"
    have f0: "K + nat needed \<le> length rs2" using room l2 by simp
    have f1: "0 + nat needed \<le> length A + length D" using enough by linarith
    from fill_args_ok [OF f0 f1, of h2]
    obtain rs3 h3 where raw3: "fill_args (nat needed) 0 K A D rs2 h2 = Inr (rs3, h3)"
        "length rs3 = length rs2"
        "\<forall>j < nat needed. rs3 ! (K + j)
            = (if 0 + j < length A then A ! (0 + j) else D ! (0 + j - length A))"
        "\<forall>p < length rs2. p < K \<or> K + nat needed \<le> p \<longrightarrow> rs3 ! p = rs2 ! p"
      by blast
    have ctor: "RegisterFrame_ctor func obj args kw h
                  = Done (\<lparr>frame_code = func, frame_kw = kw, call_args = None, registers = rs3\<rparr>, h3)"
      using ctor0 enough raw3(1) by simp
    have l3: "length rs3 = ?N" using raw3(2) l2 by simp
    have mid: "\<forall>i < nat needed. rs3 ! (K + i) = (if i < length A then A ! i else D ! (i - length A))"
      using raw3(3) by simp
    have keep3: "\<And>p. p < ?N \<Longrightarrow> p < K \<or> K + nat needed \<le> p \<Longrightarrow> rs3 ! p = rs2 ! p"
    proof -
      fix p assume pN: "p < ?N" and pK: "p < K \<or> K + nat needed \<le> p"
      have p1: "p < length rs2" using pN l2 by simp
      from raw3(4) p1 pK show "rs3 ! p = rs2 ! p" by blast
    qed
    have hi: "\<forall>p < ?N. K + nat needed \<le> p \<longrightarrow> rs3 ! p = None"
    proof (intro allI impI)
      fix p assume p: "p < ?N" "K + nat needed \<le> p"
      then have "rs3 ! p = rs2 ! p" by (intro keep3) simp_all
      also have "rs2 ! p = rs1 ! p" using p by (intro keep2) simp_all
      also have "rs1 ! p = None" using p Ks by (intro hi1) simp_all
      finally show "rs3 ! p = None" .
    qed
    have lo: "\<forall>j < ?kc. rs3 ! j = co_consts func ! j"
    proof (intro allI impI)
      fix j assume j: "j < ?kc"
      then have jn: "j < ?N" "j < K" using room Ks by simp_all
      then have "rs3 ! j = rs2 ! j" by (intro keep3) simp_all
      also have "rs2 ! j = rs1 ! j" using jn j by (intro keep2) simp_all
      also have "rs1 ! j = co_consts func ! j" using j by (rule lo1)
      finally show "rs3 ! j = co_consts func ! j" .
    qed
    show "\<exists>fr h'. RegisterFrame_ctor func obj args kw h = Done (fr, h')
              \<and> length (registers fr) = num_registers func
              \<and> (\<forall>i < nat needed. registers fr ! (K + i)
                     = (if i < length A then A ! i else D ! (i - length A)))
              \<and> (\<forall>p < num_registers func. K + nat needed \<le> p \<longrightarrow> registers fr ! p = None)
              \<and> (\<forall>j < length (co_consts func). registers fr ! j = co_consts func ! j)"
      using ctor l3 mid hi lo by simp
  qed
qed


lemma f_examples:
  "(case eval_python (H0 codes_f) L0 (Suc (Suc (Suc 0))) (Some 14) (Some 15) w0 0 of
      Done (Some r, h', c) \<Rightarrow> ob_val h' r = PyInt 10 | _ \<Rightarrow> False)
   \<and> (case eval_python (H0 codes_f) L0 (Suc (Suc (Suc 0))) (Some 14) (Some 16) w0 0 of
      Done (Some r, h', c) \<Rightarrow> ob_val h' r = PyInt 7 | _ \<Rightarrow> False)"
  by code_simp

lemma eval_python_ctor_throws:
  assumes "RegisterFrame_ctor func obj (Some a) None h = Throw_RException e h'"
    and "PyTuple_Check h a" and "compile H obj h = Some func"
  shows "eval_python H L (Suc n) obj (Some a) h c = Throw_RException e (h', c)"
  using assms by (simp add: eval_python_body_def frame_from_python_def)

text \<open>
  Claim C8.  Let \<open>A\<close> be the actual arguments, \<open>D\<close> the defaults of the code's function,
  \<open>needed\<close> the argument count of the code minus one for a bound method, and \<open>K\<close> the
  register after the constants (and after \<^verbatim>\<open>self\<close>).  If \<open>len A + len D < needed\<close> the
  constructor throws a \<^verbatim>\<open>TypeError\<close>, and so does \<^verbatim>\<open>eval_python\<close>, whatever its fuel: no
  frame runs.  Otherwise exactly the registers \<open>K .. K + needed\<close> are filled, register
  \<open>K + i\<close> with \<open>A ! i\<close> for \<open>i < len A\<close> and with \<open>D ! (i - len A)\<close> beyond; the constants
  are below and every register above stays \<^verbatim>\<open>NULL\<close>.  For \<^verbatim>\<open>def f(a, b=7): return a+b\<close>
  the call \<^verbatim>\<open>f(3)\<close> returns 10 and \<^verbatim>\<open>f(3, 4)\<close> returns 7.
\<close>

theorem frame_binds_actuals_then_defaults:
  assumes obj: "obj = Some fn"
    and consts_ok: "None \<notin> set (co_consts func)"
    and self_ok: "PyMethod_Check h fn \<longrightarrow> PyMethod_Self h fn \<noteq> None"
    and A: "A = tuple_items h args"
    and D: "D = tuple_items h (PyFunction_GetDefaults h (code_function func))"
    and K: "K = length (co_consts func) + (if PyMethod_Check h fn then 1 else 0)"
    and needed: "needed = co_argcount func - (if PyMethod_Check h fn then 1 else 0)"
    and room: "K + nat needed \<le> num_registers func"
  shows "(int (length A) + int (length D) < needed \<longrightarrow>
           (\<exists>msg h'. RegisterFrame_ctor func obj args None h
                        = Throw_RException (RException_new PyExc_TypeError msg) h'
              \<and> (\<forall>a. args = Some a \<and> PyTuple_Check h a \<and> compile H obj h = Some func \<longrightarrow>
                    eval_python H L (Suc n) obj args h c
                      = Throw_RException (RException_new PyExc_TypeError msg) (h', c))))
       \<and> (\<not> int (length A) + int (length D) < needed \<longrightarrow>
           (\<exists>fr h'. RegisterFrame_ctor func obj args None h = Done (fr, h')
              \<and> length (registers fr) = num_registers func
              \<and> (\<forall>i < nat needed. registers fr ! (K + i)
                     = (if i < length A then A ! i else D ! (i - length A)))
              \<and> (\<forall>p < num_registers func. K + nat needed \<le> p \<longrightarrow> registers fr ! p = None)
              \<and> (\<forall>j < length (co_consts func). registers fr ! j = co_consts func ! j)))
       \<and> (case eval_python (H0 codes_f) L0 (Suc (Suc (Suc 0))) (Some 14) (Some 15) w0 0 of
             Done (Some r, h', c) \<Rightarrow> ob_val h' r = PyInt 10 | _ \<Rightarrow> False)
       \<and> (case eval_python (H0 codes_f) L0 (Suc (Suc (Suc 0))) (Some 14) (Some 16) w0 0 of
             Done (Some r, h', c) \<Rightarrow> ob_val h' r = PyInt 7 | _ \<Rightarrow> False)"
proof -
  note G = RegisterFrame_ctor_binds [OF obj consts_ok self_ok A D K needed room, of None]
  have short: "int (length A) + int (length D) < needed \<longrightarrow>
           (\<exists>msg h'. RegisterFrame_ctor func obj args None h
                        = Throw_RException (RException_new PyExc_TypeError msg) h'
              \<and> (\<forall>a. args = Some a \<and> PyTuple_Check h a \<and> compile H obj h = Some func \<longrightarrow>
                    eval_python H L (Suc n) obj args h c
                      = Throw_RException (RException_new PyExc_TypeError msg) (h', c)))"
  proof
    assume "int (length A) + int (length D) < needed"
    with G obtain msg h' where t: "RegisterFrame_ctor func obj args None h
                        = Throw_RException (RException_new PyExc_TypeError msg) h'"
      by blast
    have "\<forall>a. args = Some a \<and> PyTuple_Check h a \<and> compile H obj h = Some func \<longrightarrow>
                    eval_python H L (Suc n) obj args h c
                      = Throw_RException (RException_new PyExc_TypeError msg) (h', c)"
    proof (intro allI impI)
      fix a
      assume g: "args = Some a \<and> PyTuple_Check h a \<and> compile H obj h = Some func"
      then have e: "args = Some a" and tc: "PyTuple_Check h a"
        and cp: "compile H obj h = Some func"
        by blast+
      have "RegisterFrame_ctor func obj (Some a) None h
              = Throw_RException (RException_new PyExc_TypeError msg) h'"
        using t e by simp
      from this tc cp show "eval_python H L (Suc n) obj args h c
                      = Throw_RException (RException_new PyExc_TypeError msg) (h', c)"
        unfolding e by (rule eval_python_ctor_throws)
    qed
    with t show "\<exists>msg h'. RegisterFrame_ctor func obj args None h
                        = Throw_RException (RException_new PyExc_TypeError msg) h'
              \<and> (\<forall>a. args = Some a \<and> PyTuple_Check h a \<and> compile H obj h = Some func \<longrightarrow>
                    eval_python H L (Suc n) obj args h c
                      = Throw_RException (RException_new PyExc_TypeError msg) (h', c))"
      by blast
  qed
  from short G [THEN conjunct2] f_examples show ?thesis by blast
qed

text \<open>
  The theorem at \<^verbatim>\<open>f(3)\<close>, whose frame has \<^verbatim>\<open>None\<close>, \<open>3\<close>, the default \<open>7\<close> and \<^verbatim>\<open>NULL\<close>
  in its four registers, and at \<^verbatim>\<open>f()\<close>, where \<^verbatim>\<open>eval_python\<close> throws the \<^verbatim>\<open>TypeError\<close>.
\<close>

theorem frame_binds_actuals_then_defaults_witness:
  "(\<exists>fr h'. RegisterFrame_ctor code_f (Some 14) (Some 15) None w0 = Done (fr, h')
      \<and> length (registers fr) = 4
      \<and> registers fr ! 0 = Some Py_None \<and> registers fr ! 1 = Some 10
      \<and> registers fr ! 2 = Some 12 \<and> registers fr ! 3 = None)
   \<and> (\<exists>msg h'. eval_python (H0 codes_f) L0 (Suc 0) (Some 14) (Some 17) w0 0
                  = Throw_RException (RException_new PyExc_TypeError msg) (h', 0))"
proof -
  have v: "PyMethod_Check w0 14 = False"
      "tuple_items w0 (Some 15) = [Some 10]" "tuple_items w0 (Some 17) = []"
      "tuple_items w0 (PyFunction_GetDefaults w0 (code_function code_f)) = [Some 12]"
      "PyTuple_Check w0 17" "compile (H0 codes_f) (Some 14) w0 = Some code_f"
    by (simp_all add: w0_def code_f_def codes_f_def H0_def PyMethod_Check_def tuple_items_def
          PyFunction_GetDefaults_def PyTuple_Check_def)
  have p: "Some (14::nat) = Some 14" "None \<notin> set (co_consts code_f)"
      "PyMethod_Check w0 14 \<longrightarrow> PyMethod_Self w0 14 \<noteq> None"
      "(1::nat) = length (co_consts code_f) + (if PyMethod_Check w0 14 then 1 else 0)"
      "(2::int) = co_argcount code_f - (if PyMethod_Check w0 14 then 1 else 0)"
      "1 + nat 2 \<le> num_registers code_f"
    by (simp_all add: v code_f_def)
  note T1 = frame_binds_actuals_then_defaults
      [OF p(1) p(2) p(3) v(2) [symmetric] v(4) [symmetric] p(4) p(5) p(6),
       of "H0 codes_f" L0 0 0, THEN conjunct2, THEN conjunct1]
  note T2 = frame_binds_actuals_then_defaults
      [OF p(1) p(2) p(3) v(3) [symmetric] v(4) [symmetric] p(4) p(5) p(6),
       of "H0 codes_f" L0 0 0, THEN conjunct1]
  from T1 obtain fr h' where a:
      "RegisterFrame_ctor code_f (Some 14) (Some 15) None w0 = Done (fr, h')"
      "length (registers fr) = num_registers code_f"
      "\<forall>i < nat 2. registers fr ! (1 + i)
          = (if i < length [Some (10::nat)] then [Some 10] ! i else [Some 12] ! (i - length [Some (10::nat)]))"
      "\<forall>p < num_registers code_f. 1 + nat 2 \<le> p \<longrightarrow> registers fr ! p = None"
      "\<forall>j < length (co_consts code_f). registers fr ! j = co_consts code_f ! j"
    by auto
  have r1: "registers fr ! 1 = Some 10"
    using a(3) [rule_format, of 0] by simp
  have r2: "registers fr ! 2 = Some 12"
    using a(3) [rule_format, of 1] by (simp add: numeral_2_eq_2)
  note r12 = r1 r2
  from a(4) have r3: "registers fr ! 3 = None" by (simp add: code_f_def)
  from a(5) have r0: "registers fr ! 0 = Some Py_None" by (simp add: code_f_def)
  from a(2) have l: "length (registers fr) = 4" by (simp add: code_f_def)
  from T2 obtain msg h'' where b:
      "\<forall>a. Some 17 = Some a \<and> PyTuple_Check w0 a \<and> compile (H0 codes_f) (Some 14) w0 = Some code_f \<longrightarrow>
          eval_python (H0 codes_f) L0 (Suc 0) (Some 14) (Some 17) w0 0
            = Throw_RException (RException_new PyExc_TypeError msg) (h'', 0)"
    by auto
  from b v(5) v(6) have c: "eval_python (H0 codes_f) L0 (Suc 0) (Some 14) (Some 17) w0 0
            = Throw_RException (RException_new PyExc_TypeError msg) (h'', 0)"
    by blast
  from a(1) l r0 r12 r3 c show ?thesis by blast
qed

end
